theory Spec2Isabelle
  imports Complex_Main "HOL-Library.Word" "HOL-Library.Multiset"
begin

section \<open>The ray tracer of exp3 (src/exp3/src/main.cpp)\<close>

text \<open>
  The C++ program computes with IEEE single-precision \<^verbatim>\<open>float\<close>. This development
  reads every \<^verbatim>\<open>float\<close> as a real number and every operation as the exact one: rounding,
  overflow and underflow are not modelled, and the literals \<^verbatim>\<open>1e-4f\<close>, \<^verbatim>\<open>1e-3f\<close>, ...
  stand for the decimal fractions they denote. The one place where the exact model and
  IEEE arithmetic part ways on ordinary input, the unguarded division of
  \<^verbatim>\<open>intersect_sphere\<close>, is written out as a separate outcome (see below).
\<close>

subsection \<open>Vector kernel\<close>

text \<open>
  \<^verbatim>\<open>struct Vec3 { float x, y, z; }\<close>. The fields are named \<open>vx\<close>, \<open>vy\<close>, \<open>vz\<close> here,
  since \<open>x\<close>, \<open>y\<close>, \<open>z\<close> are wanted as variables.
\<close>

datatype vec3 = Vec3 (vx: real) (vy: real) (vz: real)

text \<open>\<^verbatim>\<open>operator+\<close>, \<^verbatim>\<open>operator-\<close>, \<^verbatim>\<open>operator*(float)\<close> (both argument orders).\<close>

definition vadd :: "vec3 \<Rightarrow> vec3 \<Rightarrow> vec3" where
  "vadd a b = Vec3 (vx a + vx b) (vy a + vy b) (vz a + vz b)"

definition vsub :: "vec3 \<Rightarrow> vec3 \<Rightarrow> vec3" where
  "vsub a b = Vec3 (vx a - vx b) (vy a - vy b) (vz a - vz b)"

definition smul :: "vec3 \<Rightarrow> real \<Rightarrow> vec3" where
  "smul v s = Vec3 (vx v * s) (vy v * s) (vz v * s)"

definition lmul :: "real \<Rightarrow> vec3 \<Rightarrow> vec3" where
  "lmul s v = Vec3 (vx v * s) (vy v * s) (vz v * s)"

definition dot :: "vec3 \<Rightarrow> vec3 \<Rightarrow> real" where
  "dot a b = vx a * vx b + vy a * vy b + vz a * vz b"

definition cross :: "vec3 \<Rightarrow> vec3 \<Rightarrow> vec3" where
  "cross a b = Vec3 (vy a * vz b - vz a * vy b)
                    (vz a * vx b - vx a * vz b)
                    (vx a * vy b - vy a * vx b)"

text \<open>
  \<^verbatim>\<open>normalize\<close>: the zero vector when the squared length is at most \<^verbatim>\<open>1e-8f\<close>, the
  vector scaled by \<^verbatim>\<open>1.0f / std::sqrt(len2)\<close> otherwise. \<^verbatim>\<open>normalize\<close> and \<^verbatim>\<open>length\<close> carry
  the suffix \<open>_v\<close>, their names being taken in HOL.
\<close>

definition normalize_v :: "vec3 \<Rightarrow> vec3" where
  "normalize_v v =
     (let len2 = dot v v in
      if len2 \<le> 1 / 10 ^ 8 then Vec3 0 0 0
      else let inv = 1 / sqrt len2 in smul v inv)"

definition length_v :: "vec3 \<Rightarrow> real" where
  "length_v v = sqrt (dot v v)"

definition clamp01 :: "vec3 \<Rightarrow> vec3" where
  "clamp01 v =
     (let c = (\<lambda>x::real. if x < 0 then 0 else (if x > 1 then 1 else x))
      in Vec3 (c (vx v)) (c (vy v)) (c (vz v)))"

subsection \<open>Rays, primitives and the scene\<close>

datatype ray = Ray (ray_o: vec3) (ray_d: vec3)

datatype sphere = Sphere (center: vec3) (radius: real) (s_color: vec3)

text \<open>A plane is \<open>n \<cdot> p + d = 0\<close>, the normal pointing into the room.\<close>

datatype plane = Plane (pl_n: vec3) (pl_d: real) (pl_color: vec3)

text \<open>
  The globals the tracer reads, passed explicitly: \<^verbatim>\<open>g_spheres\<close>, \<^verbatim>\<open>g_planes\<close>,
  \<^verbatim>\<open>g_lightPos\<close>, \<^verbatim>\<open>g_camPos\<close>, \<^verbatim>\<open>g_camLook\<close>.
\<close>

record scene =
  g_spheres :: "sphere list"
  g_planes :: "plane list"
  g_lightPos :: vec3
  g_camPos :: vec3
  g_camLook :: vec3

text \<open>
  \<^verbatim>\<open>init_scene\<close> with the initial values of the globals: two spheres of radius 0.9 and
  the five planes of the room (floor, ceiling, back wall, right wall, left wall).
\<close>

definition init_scene :: scene where
  "init_scene =
     \<lparr> g_spheres =
         [Sphere (Vec3 1.5 0.9 2.5) 0.9 (Vec3 1 0.1 0.1),
          Sphere (Vec3 3.5 0.9 3.5) 0.9 (Vec3 0.1 0.1 1)],
       g_planes =
         [Plane (Vec3 0 1 0) 0 (Vec3 0.45 0.30 0.15),
          Plane (Vec3 0 (-1) 0) 3 (Vec3 1 1 1),
          Plane (Vec3 0 0 1) 0 (Vec3 1 1 1),
          Plane (Vec3 (-1) 0 0) 5 (Vec3 1 1 1),
          Plane (Vec3 1 0 0) 0 (Vec3 1 1 1)],
       g_lightPos = Vec3 2.5 3 6,
       g_camPos = Vec3 2.5 1.5 8,
       g_camLook = Vec3 2.5 1.5 0 \<rparr>"

subsection \<open>Intersection tests\<close>

text \<open>
  The C++ functions return \<^verbatim>\<open>bool\<close> and write \<^verbatim>\<open>t\<close> and \<^verbatim>\<open>normal\<close> through references
  on success only. \<open>Miss\<close> is \<^verbatim>\<open>return false\<close>, \<open>Hit t n\<close> is \<^verbatim>\<open>return true\<close> with the
  two outputs.

  \<open>HitNaN\<close> is the outcome of \<^verbatim>\<open>intersect_sphere\<close> when its divisor \<^verbatim>\<open>2 * a\<close> is zero, which
  the code does not test. In exact arithmetic \<open>a = 0\<close> forces \<open>b = 0\<close> and \<open>disc = 0\<close>, so
  both quotients are \<^verbatim>\<open>0/0\<close>: IEEE arithmetic gives NaN, both comparisons
  \<^verbatim>\<open>t_hit < 1e-4f\<close> are false, and the function returns \<^verbatim>\<open>true\<close> with \<^verbatim>\<open>t\<close> and \<^verbatim>\<open>normal\<close>
  NaN. No real number stands for that \<^verbatim>\<open>t\<close>, hence the separate constructor.
\<close>

datatype isect = Miss | Hit real vec3 | HitNaN

definition intersect_sphere :: "ray \<Rightarrow> sphere \<Rightarrow> isect" where
  "intersect_sphere ray s =
     (let oc = vsub (ray_o ray) (center s);
          a = dot (ray_d ray) (ray_d ray);
          b = 2 * dot oc (ray_d ray);
          c = dot oc oc - radius s * radius s;
          disc = b * b - 4 * a * c
      in if disc < 0 then Miss
         else let sqrt_disc = sqrt disc in
           if 2 * a = 0 then HitNaN
           else let t0 = (- b - sqrt_disc) / (2 * a);
                    t1 = (- b + sqrt_disc) / (2 * a);
                    t_hit = (if t0 < 1 / 10 ^ 4 then t1 else t0)
                in if t_hit < 1 / 10 ^ 4 then Miss
                   else let hitPoint = vadd (ray_o ray) (smul (ray_d ray) t_hit)
                        in Hit t_hit (normalize_v (vsub hitPoint (center s))))"

definition intersect_plane :: "ray \<Rightarrow> plane \<Rightarrow> isect" where
  "intersect_plane ray pl =
     (let denom = dot (pl_n pl) (ray_d ray) in
      if \<bar>denom\<bar> < 1 / 10 ^ 6 then Miss
      else let num = - (dot (pl_n pl) (ray_o ray) + pl_d pl);
               t_hit = num / denom
           in if t_hit < 1 / 10 ^ 4 then Miss
              else let hitPoint = vadd (ray_o ray) (smul (ray_d ray) t_hit) in
                if vx hitPoint < 0 - 1 / 10 ^ 3 \<or> vx hitPoint > 5 + 1 / 10 ^ 3 \<or>
                   vy hitPoint < 0 - 1 / 10 ^ 3 \<or> vy hitPoint > 3 + 1 / 10 ^ 3 \<or>
                   vz hitPoint < 0 - 1 / 10 ^ 3 \<or> vz hitPoint > 5 + 1 / 10 ^ 3
                then Miss
                else Hit t_hit (pl_n pl))"

subsection \<open>Shading\<close>

definition kMaxDepth :: int where
  "kMaxDepth = 2"

text \<open>
  The two shadow loops of \<^verbatim>\<open>shade\<close>: each stops at the first primitive the shadow ray
  hits at \<^verbatim>\<open>tTmp < lightDist - 1e-3f\<close>. For \<open>HitNaN\<close> the C++ comparison has a NaN operand
  and is false.
\<close>

fun shadow_spheres :: "ray \<Rightarrow> real \<Rightarrow> sphere list \<Rightarrow> bool" where
  "shadow_spheres shadowRay lightDist [] = False"
| "shadow_spheres shadowRay lightDist (s # ss) =
     (case intersect_sphere shadowRay s of
        Hit tTmp nTmp \<Rightarrow>
          if tTmp < lightDist - 1 / 10 ^ 3 then True
          else shadow_spheres shadowRay lightDist ss
      | Miss \<Rightarrow> shadow_spheres shadowRay lightDist ss
      | HitNaN \<Rightarrow> shadow_spheres shadowRay lightDist ss)"

fun shadow_planes :: "ray \<Rightarrow> real \<Rightarrow> plane list \<Rightarrow> bool" where
  "shadow_planes shadowRay lightDist [] = False"
| "shadow_planes shadowRay lightDist (pl # pls) =
     (case intersect_plane shadowRay pl of
        Hit tTmp nTmp \<Rightarrow>
          if tTmp < lightDist - 1 / 10 ^ 3 then True
          else shadow_planes shadowRay lightDist pls
      | Miss \<Rightarrow> shadow_planes shadowRay lightDist pls
      | HitNaN \<Rightarrow> shadow_planes shadowRay lightDist pls)"

text \<open>\<^verbatim>\<open>std::pow(ndoth, 32.0f)\<close> on \<open>ndoth \<ge> 0\<close> is the 32nd power.\<close>

definition shade :: "scene \<Rightarrow> vec3 \<Rightarrow> vec3 \<Rightarrow> vec3 \<Rightarrow> vec3 \<Rightarrow> vec3" where
  "shade sc hitPoint normal baseColor viewDir =
     (let L = normalize_v (vsub (g_lightPos sc) hitPoint);
          lightDist = length_v (vsub (g_lightPos sc) hitPoint);
          shadowRay = Ray (vadd hitPoint (smul normal (1 / 10 ^ 3))) L;
          inShadow = (if shadow_spheres shadowRay lightDist (g_spheres sc) then True
                      else shadow_planes shadowRay lightDist (g_planes sc));
          ndotl = max 0 (dot normal L);
          ambient = 0.2;
          diff = (if inShadow then 0 else ndotl);
          color = smul baseColor (ambient + diff * 0.8);
          H = normalize_v (vadd L viewDir);
          ndoth = max 0 (dot normal H);
          spec = (if inShadow then 0 else ndoth ^ 32);
          specColor = smul (Vec3 1 1 1) (spec * 0.3)
      in clamp01 (vadd color specColor))"

subsection \<open>The recursive tracer\<close>

text \<open>The locals of \<^verbatim>\<open>trace\<close> that the two nearest-hit loops update.\<close>

record hitrec =
  tMin :: real
  hitNormal :: vec3
  hitColor :: vec3
  hitReflectivity :: real
  hit :: bool

definition init_hit :: hitrec where
  "init_hit = \<lparr> tMin = 10 ^ 30, hitNormal = Vec3 0 0 0, hitColor = Vec3 0 0 0,
                 hitReflectivity = 0, hit = False \<rparr>"

text \<open>
  One iteration of each loop. The test is \<^verbatim>\<open>intersect(...) && t < tMin\<close>, strict; with
  \<open>HitNaN\<close> the comparison is false. A sphere hit sets the reflectivity to \<^verbatim>\<open>0.0f\<close>, a
  plane hit to \<^verbatim>\<open>0.05f\<close>.
\<close>

definition sphere_step :: "ray \<Rightarrow> sphere \<Rightarrow> hitrec \<Rightarrow> hitrec" where
  "sphere_step ray s h =
     (case intersect_sphere ray s of
        Hit t n \<Rightarrow>
          if t < tMin h
          then \<lparr> tMin = t, hitNormal = n, hitColor = s_color s,
                 hitReflectivity = 0, hit = True \<rparr>
          else h
      | Miss \<Rightarrow> h
      | HitNaN \<Rightarrow> h)"

definition plane_step :: "ray \<Rightarrow> plane \<Rightarrow> hitrec \<Rightarrow> hitrec" where
  "plane_step ray pl h =
     (case intersect_plane ray pl of
        Hit t n \<Rightarrow>
          if t < tMin h
          then \<lparr> tMin = t, hitNormal = n, hitColor = pl_color pl,
                 hitReflectivity = 0.05, hit = True \<rparr>
          else h
      | Miss \<Rightarrow> h
      | HitNaN \<Rightarrow> h)"

text \<open>Spheres first, then planes.\<close>

definition nearest_hit :: "scene \<Rightarrow> ray \<Rightarrow> hitrec" where
  "nearest_hit sc ray =
     fold (plane_step ray) (g_planes sc) (fold (sphere_step ray) (g_spheres sc) init_hit)"

text \<open>The mirror direction \<^verbatim>\<open>reflDir\<close> and the reflected ray \<^verbatim>\<open>reflRay\<close> (lines 233 to 236).\<close>

definition reflDir :: "vec3 \<Rightarrow> vec3 \<Rightarrow> vec3" where
  "reflDir d n = normalize_v (vsub d (lmul (2 * dot d n) n))"

definition reflRay :: "ray \<Rightarrow> hitrec \<Rightarrow> ray" where
  "reflRay ray h =
     (let hitPoint = vadd (ray_o ray) (smul (ray_d ray) (tMin h))
      in Ray (vadd hitPoint (smul (hitNormal h) (1 / 10 ^ 3)))
             (reflDir (ray_d ray) (hitNormal h)))"

function trace :: "scene \<Rightarrow> ray \<Rightarrow> int \<Rightarrow> vec3" where
  "trace sc ray depth =
     (let h = nearest_hit sc ray in
      if \<not> hit h then Vec3 0.2 0.3 0.5
      else
        let hitPoint = vadd (ray_o ray) (smul (ray_d ray) (tMin h));
            viewDir = normalize_v (smul (ray_d ray) (- 1));
            localColor = shade sc hitPoint (hitNormal h) (hitColor h) viewDir
        in if depth < kMaxDepth \<and> hitReflectivity h > 0
           then
             let reflColor = trace sc (reflRay ray h) (depth + 1)
             in clamp01 (vadd (lmul (1 - hitReflectivity h) localColor)
                              (lmul (hitReflectivity h) reflColor))
           else clamp01 localColor)"
  by pat_completeness auto
termination
  by (relation "measure (\<lambda>(sc, ray, depth). nat (kMaxDepth - depth))") auto

declare trace.simps [simp del]

subsection \<open>The divisions of the kernel\<close>

text \<open>
  The three functions above divide once each (\<^verbatim>\<open>intersect_sphere\<close> twice, by the same
  divisor). For each of them, the divisor of the division it reaches on the given input,
  or \<open>None\<close> when it returns before dividing:
  \<^verbatim>\<open>1.0f / std::sqrt(len2)\<close> in \<^verbatim>\<open>normalize\<close>, \<^verbatim>\<open>(... ) / (2 * a)\<close> in \<^verbatim>\<open>intersect_sphere\<close>,
  \<^verbatim>\<open>num / denom\<close> in \<^verbatim>\<open>intersect_plane\<close>.
\<close>

definition normalize_divisor :: "vec3 \<Rightarrow> real option" where
  "normalize_divisor v =
     (let len2 = dot v v in
      if len2 \<le> 1 / 10 ^ 8 then None else Some (sqrt len2))"

definition intersect_sphere_divisor :: "ray \<Rightarrow> sphere \<Rightarrow> real option" where
  "intersect_sphere_divisor ray s =
     (let oc = vsub (ray_o ray) (center s);
          a = dot (ray_d ray) (ray_d ray);
          b = 2 * dot oc (ray_d ray);
          c = dot oc oc - radius s * radius s;
          disc = b * b - 4 * a * c
      in if disc < 0 then None else Some (2 * a))"

definition intersect_plane_divisor :: "ray \<Rightarrow> plane \<Rightarrow> real option" where
  "intersect_plane_divisor ray pl =
     (let denom = dot (pl_n pl) (ray_d ray) in
      if \<bar>denom\<bar> < 1 / 10 ^ 6 then None else Some denom)"

subsection \<open>The tracer with a log\<close>

text \<open>
  \<^verbatim>\<open>trace\<close> once more, line by line, returning next to the colour a log of the run: the
  arguments \<open>(ray, depth)\<close> of every invocation of \<^verbatim>\<open>trace\<close>, the outermost first, and the
  number of evaluations of \<^verbatim>\<open>shade\<close>. An invocation enters itself in the log, counts one
  for its call of \<^verbatim>\<open>shade\<close>, and takes over the log of the invocation it calls. That the
  colour is the one \<^verbatim>\<open>trace\<close> returns is proved below (\<open>trace_log_trace\<close>).
\<close>

function trace_log :: "scene \<Rightarrow> ray \<Rightarrow> int \<Rightarrow> vec3 \<times> (ray \<times> int) list \<times> nat" where
  "trace_log sc ray depth =
     (let h = nearest_hit sc ray in
      if \<not> hit h then (Vec3 0.2 0.3 0.5, [(ray, depth)], 0)
      else
        let hitPoint = vadd (ray_o ray) (smul (ray_d ray) (tMin h));
            viewDir = normalize_v (smul (ray_d ray) (- 1));
            localColor = shade sc hitPoint (hitNormal h) (hitColor h) viewDir
        in if depth < kMaxDepth \<and> hitReflectivity h > 0
           then
             (case trace_log sc (reflRay ray h) (depth + 1) of
                (reflColor, calls, shades) \<Rightarrow>
                  (clamp01 (vadd (lmul (1 - hitReflectivity h) localColor)
                                 (lmul (hitReflectivity h) reflColor)),
                   (ray, depth) # calls, 1 + shades))
           else (clamp01 localColor, [(ray, depth)], 1))"
  by pat_completeness auto
termination
  by (relation "measure (\<lambda>(sc, ray, depth). nat (kMaxDepth - depth))") auto

declare trace_log.simps [simp del]

definition trace_rays :: "scene \<Rightarrow> ray \<Rightarrow> int \<Rightarrow> (ray \<times> int) list" where
  "trace_rays sc ray depth = fst (snd (trace_log sc ray depth))"

definition trace_shades :: "scene \<Rightarrow> ray \<Rightarrow> int \<Rightarrow> nat" where
  "trace_shades sc ray depth = snd (snd (trace_log sc ray depth))"

subsection \<open>The tracer without its reflection branch\<close>

text \<open>
  The variant of the refinement claim, from the spec's words: \<^verbatim>\<open>trace\<close> with the reflection
  branch (mirror direction, recursive call and blend) removed. Nothing of it is left that
  depends on \<open>depth\<close>.
\<close>

definition trace_noreflect :: "scene \<Rightarrow> ray \<Rightarrow> int \<Rightarrow> vec3" where
  "trace_noreflect sc ray depth =
     (let h = nearest_hit sc ray in
      if \<not> hit h then Vec3 0.2 0.3 0.5
      else
        let hitPoint = vadd (ray_o ray) (smul (ray_d ray) (tMin h));
            viewDir = normalize_v (smul (ray_d ray) (- 1));
            localColor = shade sc hitPoint (hitNormal h) (hitColor h) viewDir
        in clamp01 localColor)"

subsection \<open>Candidates of the nearest-hit search\<close>

text \<open>
  The values the two loops of \<^verbatim>\<open>trace\<close> would store for each primitive that reports a
  hit with a real \<open>t\<close>, in the order of the traversal (spheres in list order, then planes in
  list order), and the condition that the nearest distance decides the hit: every
  candidate at the smallest \<open>t\<close> carries the same normal, colour and reflectivity.
\<close>

definition sphere_cands :: "ray \<Rightarrow> sphere \<Rightarrow> hitrec list" where
  "sphere_cands ray s =
     (case intersect_sphere ray s of
        Hit t n \<Rightarrow> [\<lparr> tMin = t, hitNormal = n, hitColor = s_color s,
                      hitReflectivity = 0, hit = True \<rparr>]
      | Miss \<Rightarrow> []
      | HitNaN \<Rightarrow> [])"

definition plane_cands :: "ray \<Rightarrow> plane \<Rightarrow> hitrec list" where
  "plane_cands ray pl =
     (case intersect_plane ray pl of
        Hit t n \<Rightarrow> [\<lparr> tMin = t, hitNormal = n, hitColor = pl_color pl,
                      hitReflectivity = 0.05, hit = True \<rparr>]
      | Miss \<Rightarrow> []
      | HitNaN \<Rightarrow> [])"

text \<open>What either loop does with a candidate: it replaces the stored hit when nearer.\<close>

definition pick :: "hitrec \<Rightarrow> hitrec \<Rightarrow> hitrec" where
  "pick c h = (if tMin c < tMin h then c else h)"

definition candidates :: "scene \<Rightarrow> ray \<Rightarrow> hitrec list" where
  "candidates sc ray =
     concat (map (sphere_cands ray) (g_spheres sc)) @ concat (map (plane_cands ray) (g_planes sc))"

definition tie_free :: "scene \<Rightarrow> ray \<Rightarrow> bool" where
  "tie_free sc ray =
     (\<forall>c1 \<in> set (candidates sc ray). \<forall>c2 \<in> set (candidates sc ray).
        (\<forall>c \<in> set (candidates sc ray). tMin c1 \<le> tMin c) \<and> tMin c2 = tMin c1 \<longrightarrow> c2 = c1)"

text \<open>
  The candidates that can win: nearer than the initial \<^verbatim>\<open>tMin = 1e30f\<close> and not farther
  than any other candidate.
\<close>

definition nearest_cands :: "scene \<Rightarrow> ray \<Rightarrow> hitrec list" where
  "nearest_cands sc ray =
     filter (\<lambda>c. tMin c < 10 ^ 30 \<and> (\<forall>c' \<in> set (candidates sc ray). tMin c \<le> tMin c'))
       (candidates sc ray)"

subsection \<open>The frame renderer\<close>

text \<open>
  \<^verbatim>\<open>g_width\<close>, \<^verbatim>\<open>g_height\<close>, the loop counters and the buffer index are C++ \<^verbatim>\<open>int\<close>s, 32
  bits wide. They are integers here, and every \<^verbatim>\<open>int\<close> operation of the index
  computation whose result leaves the range of \<^verbatim>\<open>int\<close> is undefined behaviour: \<open>None\<close>.
\<close>

definition INT_MAX :: int where
  "INT_MAX = 2 ^ 31 - 1"

definition int_range :: "int \<Rightarrow> bool" where
  "int_range k \<longleftrightarrow> - (2 ^ 31) \<le> k \<and> k \<le> INT_MAX"

text \<open>
  The size \<^verbatim>\<open>g_width * g_height * 3\<close> that \<^verbatim>\<open>init_scene\<close> and \<^verbatim>\<open>reshape_cb\<close> pass to
  \<^verbatim>\<open>g_colorBuffer.resize\<close>: two \<^verbatim>\<open>int\<close> multiplications, then the conversion to the 64-bit
  \<^verbatim>\<open>size_t\<close>.
\<close>

definition buffer_size :: "int \<Rightarrow> int \<Rightarrow> nat option" where
  "buffer_size w h =
     (if int_range (w * h) \<and> int_range (w * h * 3)
      then Some (nat ((w * h * 3) mod 2 ^ 64)) else None)"

text \<open>The camera set-up that \<^verbatim>\<open>render_scene\<close> computes before its loops.\<close>

record camera =
  cam_forward :: vec3
  cam_right :: vec3
  cam_up :: vec3
  cam_aspect :: real
  cam_scale :: real

definition make_camera :: "scene \<Rightarrow> int \<Rightarrow> int \<Rightarrow> camera" where
  "make_camera sc w h =
     (let forward = normalize_v (vsub (g_camLook sc) (g_camPos sc));
          worldUp = Vec3 0 1 0;
          right = normalize_v (cross forward worldUp);
          right = (if dot right right < 1 / 10 ^ 6
                   then normalize_v (cross forward (Vec3 0 0 1)) else right);
          up = normalize_v (cross right forward);
          fov = 45 * 3.1415926 / 180;
          aspect = real_of_int w / real_of_int h;
          scale = tan (fov * 0.5)
      in \<lparr> cam_forward = forward, cam_right = right, cam_up = up,
           cam_aspect = aspect, cam_scale = scale \<rparr>)"

text \<open>The body of the inner loop up to \<^verbatim>\<open>col = clamp01(col)\<close>.\<close>

definition pixel_color :: "scene \<Rightarrow> camera \<Rightarrow> int \<Rightarrow> int \<Rightarrow> int \<Rightarrow> int \<Rightarrow> vec3" where
  "pixel_color sc cam w h x y =
     (let u = (2 * ((real_of_int x + 0.5) / real_of_int w) - 1) * cam_aspect cam * cam_scale cam;
          v = (2 * ((real_of_int y + 0.5) / real_of_int h) - 1) * cam_scale cam;
          dir = normalize_v (vadd (vadd (cam_forward cam) (lmul u (cam_right cam)))
                                  (lmul v (cam_up cam)));
          ray = Ray (g_camPos sc) dir;
          col = trace sc ray 0
      in clamp01 col)"

text \<open>
  \<^verbatim>\<open>static_cast<unsigned char>(c * 255.0f)\<close> drops the fraction; \<open>c\<close> is a clamped channel,
  so the product lies in \<open>[0, 255]\<close>, where dropping the fraction is \<open>floor\<close>.
\<close>

definition quantize :: "real \<Rightarrow> 8 word" where
  "quantize c = word_of_int \<lfloor>c * 255\<rfloor>"

text \<open>\<^verbatim>\<open>int idx = (y * g_width + x) * 3\<close> and the two sums \<^verbatim>\<open>idx + 1\<close>, \<^verbatim>\<open>idx + 2\<close>.\<close>

definition pixel_index :: "int \<Rightarrow> int \<Rightarrow> int \<Rightarrow> int option" where
  "pixel_index w x y =
     (let idx = (y * w + x) * 3 in
      if int_range (y * w) \<and> int_range (y * w + x) \<and> int_range idx \<and>
         int_range (idx + 1) \<and> int_range (idx + 2)
      then Some idx else None)"

text \<open>
  The state of a frame under construction: \<^verbatim>\<open>g_colorBuffer\<close> and the offsets stored to so
  far, in the order of the stores. The three stores of the loop body append their offsets.
  A store past the end of the vector is undefined behaviour in C++: \<open>None\<close>.
\<close>

type_synonym frame = "8 word list \<times> nat list"

definition store_pixel :: "frame \<Rightarrow> int \<Rightarrow> vec3 \<Rightarrow> frame option" where
  "store_pixel fr idx col =
     (case fr of (buf, stores) \<Rightarrow>
        if 0 \<le> idx \<and> nat idx + 2 < length buf
        then Some (buf[nat idx := quantize (vx col), nat idx + 1 := quantize (vy col),
                       nat idx + 2 := quantize (vz col)],
                   stores @ [nat idx, nat idx + 1, nat idx + 2])
        else None)"

text \<open>
  The inner loop \<^verbatim>\<open>for (int x = 0; x < g_width; ++x)\<close> from the counter value \<open>x\<close> on, and
  the outer loop \<^verbatim>\<open>for (int y = 0; y < g_height; ++y)\<close> from \<open>y\<close> on.
\<close>

function render_cols ::
  "scene \<Rightarrow> camera \<Rightarrow> int \<Rightarrow> int \<Rightarrow> int \<Rightarrow> int \<Rightarrow> frame \<Rightarrow> frame option" where
  "render_cols sc cam w h y x fr =
     (if x < w then
        (case pixel_index w x y of
           None \<Rightarrow> None
         | Some idx \<Rightarrow>
             (case store_pixel fr idx (pixel_color sc cam w h x y) of
                None \<Rightarrow> None
              | Some fr' \<Rightarrow> render_cols sc cam w h y (x + 1) fr'))
      else Some fr)"
  by pat_completeness auto
termination
  by (relation "measure (\<lambda>(sc, cam, w, h, y, x, fr). nat (w - x))") auto

declare render_cols.simps [simp del]

function render_rows ::
  "scene \<Rightarrow> camera \<Rightarrow> int \<Rightarrow> int \<Rightarrow> int \<Rightarrow> frame \<Rightarrow> frame option" where
  "render_rows sc cam w h y fr =
     (if y < h then
        (case render_cols sc cam w h y 0 fr of
           None \<Rightarrow> None
         | Some fr' \<Rightarrow> render_rows sc cam w h (y + 1) fr')
      else Some fr)"
  by pat_completeness auto
termination
  by (relation "measure (\<lambda>(sc, cam, w, h, y, fr). nat (h - y))") auto

declare render_rows.simps [simp del]

text \<open>
  \<^verbatim>\<open>render_scene\<close>, with \<^verbatim>\<open>g_width\<close>, \<^verbatim>\<open>g_height\<close> and \<^verbatim>\<open>g_colorBuffer\<close> passed in; it returns
  the buffer and the offsets it has stored to.
\<close>

definition render_scene :: "scene \<Rightarrow> int \<Rightarrow> int \<Rightarrow> 8 word list \<Rightarrow> frame option" where
  "render_scene sc w h buf = render_rows sc (make_camera sc w h) w h 0 (buf, [])"

text \<open>
  The byte that the frame has at offset \<open>i\<close>: channel \<open>i mod 3\<close> of the pixel in column
  \<open>(i div 3) mod w\<close> of row \<open>(i div 3) div w\<close>.
\<close>

definition chan :: "nat \<Rightarrow> vec3 \<Rightarrow> real" where
  "chan k v = (if k = 0 then vx v else if k = 1 then vy v else vz v)"

definition byte_at :: "scene \<Rightarrow> camera \<Rightarrow> int \<Rightarrow> int \<Rightarrow> nat \<Rightarrow> 8 word" where
  "byte_at sc cam w h i =
     quantize (chan (i mod 3)
       (pixel_color sc cam w h (int ((i div 3) mod nat w)) (int ((i div 3) div nat w))))"

section \<open>Theorems\<close>

subsection \<open>Vector algebra\<close>

lemma smul_one: "smul v 1 = v"
  by (cases v) (simp add: smul_def)

lemma dot_refl_self:
  "dot (vsub d (lmul (2 * dot d n) n)) (vsub d (lmul (2 * dot d n) n))
     = dot d d - 4 * (dot d n)\<^sup>2 * (1 - dot n n)"
  by (cases d; cases n) (simp add: dot_def vsub_def lmul_def power2_eq_square algebra_simps)

lemma dot_refl_n:
  "dot (vsub d (lmul (2 * dot d n) n)) n = dot d n * (1 - 2 * dot n n)"
  by (cases d; cases n) (simp add: dot_def vsub_def lmul_def algebra_simps)

lemma dot_self_pos: "v \<noteq> Vec3 0 0 0 \<Longrightarrow> 0 < dot v v"
  by (cases v) (auto simp add: dot_def sum_power2_gt_zero_iff power2_eq_square[symmetric]
       intro: add_pos_nonneg add_nonneg_pos)

lemma dot_self_zero_iff: "dot v v = 0 \<longleftrightarrow> v = Vec3 0 0 0"
proof (cases v)
  case (Vec3 x y z)
  have "x * x + y * y + z * z = 0 \<longleftrightarrow> x = 0 \<and> y = 0 \<and> z = 0"
    using sum_power2_eq_zero_iff [of x y] sum_power2_eq_zero_iff [of "sqrt (x\<^sup>2 + y\<^sup>2)" z]
    by (auto simp add: power2_eq_square[symmetric])
  then show ?thesis using Vec3 by (simp add: dot_def)
qed

lemma hit_point_on_sphere:
  "dot (vsub (vadd p (smul d t)) cen) (vsub (vadd p (smul d t)) cen)
     = dot d d * t * t + 2 * dot (vsub p cen) d * t + (dot (vsub p cen) (vsub p cen) - r * r) + r * r"
  by (cases p; cases d; cases cen) (simp add: dot_def vsub_def vadd_def smul_def algebra_simps)

lemma normalize_radius:
  assumes "dot v v = r * r" and "0 < r"
  shows "normalize_v v = (if r * r \<le> 1 / 10 ^ 8 then Vec3 0 0 0 else smul v (1 / r))"
  using assms by (simp add: normalize_v_def Let_def real_sqrt_mult_self)

subsection \<open>The mirror direction\<close>

text \<open>A normalised vector has length 1 or is the zero vector.\<close>

lemma dot_smul_smul: "dot (smul v s) (smul v s) = dot v v * (s * s)"
  by (cases v) (simp add: dot_def smul_def algebra_simps)

lemma normalize_unit_or_zero:
  "normalize_v v = Vec3 0 0 0 \<or> dot (normalize_v v) (normalize_v v) = 1"
proof (cases "dot v v \<le> 1 / 10 ^ 8")
  case True
  then show ?thesis by (simp add: normalize_v_def)
next
  case False
  then have pos: "0 < dot v v" by simp
  have "dot (normalize_v v) (normalize_v v) = dot v v * ((1 / sqrt (dot v v)) * (1 / sqrt (dot v v)))"
    using False by (simp add: normalize_v_def Let_def dot_smul_smul)
  also have "\<dots> = 1"
    using pos by (simp add: field_simps)
  finally show ?thesis by simp
qed

lemma reflDir_zero: "reflDir (Vec3 0 0 0) n = Vec3 0 0 0"
  by (simp add: reflDir_def normalize_v_def dot_def vsub_def lmul_def)

text \<open>
  C9. Every direction that reaches the reflection code is a result of \<^verbatim>\<open>normalize\<close>
  (\<^verbatim>\<open>Ray.d\<close> is assigned nowhere else), so it has length 1 or is the zero vector. For every
  such incoming direction \<open>d\<close> and every unit normal \<open>n\<close>, the direction \<open>reflDir d n\<close> that
  \<^verbatim>\<open>trace\<close> computes satisfies \<open>dot (reflDir d n) n = - dot d n\<close> and has the length of \<open>d\<close>.
\<close>

theorem reflDir_mirror:
  assumes n: "dot n n = 1" and d: "d = normalize_v v"
  shows "dot (reflDir d n) n = - dot d n \<and> length_v (reflDir d n) = length_v d"
proof -
  from normalize_unit_or_zero [of v] d
  consider (zero) "d = Vec3 0 0 0" | (unit) "dot d d = 1" by auto
  then show ?thesis
  proof cases
    case zero
    then show ?thesis
      by (simp add: reflDir_zero dot_def)
  next
    case unit
    let ?v = "vsub d (lmul (2 * dot d n) n)"
    have vv: "dot ?v ?v = 1"
      using unit n by (simp add: dot_refl_self)
    have "reflDir d n = ?v"
      by (simp add: reflDir_def normalize_v_def vv smul_one)
    then show ?thesis
      using unit n vv by (simp add: length_v_def dot_refl_n)
  qed
qed

text \<open>
  The theorem at the direction straight down, mirrored at the floor normal into the
  direction straight up, and at the zero direction.
\<close>

theorem reflDir_mirror_witness:
  "dot (Vec3 0 1 0) (Vec3 0 1 0) = 1
   \<and> Vec3 0 (- 1) 0 = normalize_v (Vec3 0 (- 1) 0)
   \<and> dot (reflDir (Vec3 0 (- 1) 0) (Vec3 0 1 0)) (Vec3 0 1 0) = - dot (Vec3 0 (- 1) 0) (Vec3 0 1 0)
   \<and> length_v (reflDir (Vec3 0 (- 1) 0) (Vec3 0 1 0)) = length_v (Vec3 0 (- 1) 0)
   \<and> reflDir (Vec3 0 (- 1) 0) (Vec3 0 1 0) = Vec3 0 1 0
   \<and> Vec3 0 0 0 = normalize_v (Vec3 0 0 0)
   \<and> dot (reflDir (Vec3 0 0 0) (Vec3 0 1 0)) (Vec3 0 1 0) = - dot (Vec3 0 0 0) (Vec3 0 1 0)
   \<and> length_v (reflDir (Vec3 0 0 0) (Vec3 0 1 0)) = length_v (Vec3 0 0 0)"
proof -
  have n: "dot (Vec3 0 1 0) (Vec3 0 1 0) = 1" by (simp add: dot_def)
  have d: "Vec3 0 (- 1) 0 = normalize_v (Vec3 0 (- 1) 0)"
    by (simp add: normalize_v_def dot_def smul_def)
  have z: "Vec3 0 0 0 = normalize_v (Vec3 0 0 0)"
    by (simp add: normalize_v_def dot_def)
  have r: "reflDir (Vec3 0 (- 1) 0) (Vec3 0 1 0) = Vec3 0 1 0"
    by (simp add: reflDir_def normalize_v_def dot_def vsub_def lmul_def smul_def)
  from reflDir_mirror [OF n d] reflDir_mirror [OF n z] n d z r show ?thesis by blast
qed


subsection \<open>Ray and sphere\<close>

text \<open>Both quotients of \<^verbatim>\<open>intersect_sphere\<close> solve the quadratic.\<close>

lemma quadratic_root:
  fixes a b c :: real
  assumes "a \<noteq> 0" and "0 \<le> b * b - 4 * a * c"
    and "t = (- b - sqrt (b * b - 4 * a * c)) / (2 * a) \<or> t = (- b + sqrt (b * b - 4 * a * c)) / (2 * a)"
  shows "a * t * t + b * t + c = 0"
proof -
  define q where "q = sqrt (b * b - 4 * a * c)"
  have qq: "q * q = b * b - 4 * a * c"
    using assms(2) by (simp add: q_def)
  from assms(3) have "2 * a * t + b = - q \<or> 2 * a * t + b = q"
    using assms(1) by (auto simp add: q_def field_simps)
  then have "(2 * a * t + b) * (2 * a * t + b) = q * q"
    by auto
  then have "4 * a * (a * t * t + b * t + c) = 0"
    using qq by (simp add: algebra_simps)
  then show ?thesis using assms(1) by simp
qed

lemma intersect_sphere_HitNaN_iff:
  "intersect_sphere ray s = HitNaN \<longleftrightarrow> ray_d ray = Vec3 0 0 0"
proof
  assume "intersect_sphere ray s = HitNaN"
  then have "dot (ray_d ray) (ray_d ray) = 0"
    by (auto simp add: intersect_sphere_def Let_def split: if_splits)
  then show "ray_d ray = Vec3 0 0 0"
    by (simp add: dot_self_zero_iff)
next
  assume "ray_d ray = Vec3 0 0 0"
  then show "intersect_sphere ray s = HitNaN"
    by (simp add: intersect_sphere_def Let_def dot_def)
qed

text \<open>
  C1, as amended. Let the ray have a direction other than the zero vector and the sphere a
  radius \<open>r > 0\<close>, and let \<open>a = dot d d\<close>, \<open>b = 2 * dot (o - c) d\<close>,
  \<open>c' = dot (o - c) (o - c) - r\<^sup>2\<close>, \<open>disc = b\<^sup>2 - 4 a c'\<close>, \<open>t0 = (- b - sqrt disc) / (2 a)\<close> and
  \<open>t1 = (- b + sqrt disc) / (2 a)\<close>. Then \<^verbatim>\<open>intersect_sphere\<close> reports no hit exactly when
  \<open>disc < 0\<close> or both \<open>t0\<close> and \<open>t1\<close> are below \<open>1e-4\<close>; when \<open>disc \<ge> 0\<close>, \<open>t0 \<le> t1\<close> are the two
  roots of \<open>a t\<^sup>2 + b t + c' = 0\<close>; and on success it returns \<open>t0\<close> when \<open>t0 \<ge> 1e-4\<close> and \<open>t1\<close>
  otherwise, with the normal \<open>(hitPoint - center) / r\<close> at \<open>hitPoint = o + t d\<close> when
  \<open>r\<^sup>2 > 1e-8\<close>, and with the zero vector when \<open>r\<^sup>2 \<le> 1e-8\<close> (the guard of \<^verbatim>\<open>normalize\<close>).
\<close>

theorem intersect_sphere_spec:
  assumes dir: "ray_d ray \<noteq> Vec3 0 0 0" and rad: "0 < radius s"
    and a: "a = dot (ray_d ray) (ray_d ray)"
    and b: "b = 2 * dot (vsub (ray_o ray) (center s)) (ray_d ray)"
    and c: "c = dot (vsub (ray_o ray) (center s)) (vsub (ray_o ray) (center s)) - radius s * radius s"
    and disc: "disc = b * b - 4 * a * c"
    and t0: "t0 = (- b - sqrt disc) / (2 * a)"
    and t1: "t1 = (- b + sqrt disc) / (2 * a)"
    and t: "t = (if 1 / 10 ^ 4 \<le> t0 then t0 else t1)"
    and hp: "hitPoint = vadd (ray_o ray) (smul (ray_d ray) t)"
  shows "(intersect_sphere ray s = Miss \<longleftrightarrow> disc < 0 \<or> (t0 < 1 / 10 ^ 4 \<and> t1 < 1 / 10 ^ 4))
    \<and> (0 \<le> disc \<longrightarrow> t0 \<le> t1 \<and> a * t0 * t0 + b * t0 + c = 0 \<and> a * t1 * t1 + b * t1 + c = 0)
    \<and> (\<not> (disc < 0 \<or> (t0 < 1 / 10 ^ 4 \<and> t1 < 1 / 10 ^ 4)) \<longrightarrow>
         intersect_sphere ray s =
           Hit t (if radius s * radius s \<le> 1 / 10 ^ 8 then Vec3 0 0 0
                  else smul (vsub hitPoint (center s)) (1 / radius s)))"
proof -
  have apos: "0 < a"
    using dir a by (simp add: dot_self_pos)
  have order: "t0 \<le> t1" if "0 \<le> disc"
  proof -
    have "- b - sqrt disc \<le> - b + sqrt disc"
      using that by simp
    then show ?thesis
      using apos t0 t1 by (simp add: divide_right_mono)
  qed
  have root0: "a * t0 * t0 + b * t0 + c = 0" if "0 \<le> disc"
    using quadratic_root [of a b c t0] apos that disc t0 by simp
  have root1: "a * t1 * t1 + b * t1 + c = 0" if "0 \<le> disc"
    using quadratic_root [of a b c t1] apos that disc t1 by simp
  have roott: "a * t * t + b * t + c = 0" if "0 \<le> disc"
    using root0 root1 that t by simp
  have onsphere: "dot (vsub hitPoint (center s)) (vsub hitPoint (center s)) = radius s * radius s"
    if "0 \<le> disc"
    using roott [OF that] hit_point_on_sphere [of "ray_o ray" "ray_d ray" t "center s" "radius s"]
    by (simp add: hp a b c)
  have nrm: "normalize_v (vsub hitPoint (center s)) =
      (if radius s * radius s \<le> 1 / 10 ^ 8 then Vec3 0 0 0
       else smul (vsub hitPoint (center s)) (1 / radius s))"
    if "0 \<le> disc"
    using normalize_radius [OF onsphere [OF that] rad] .
  have unfolded: "intersect_sphere ray s =
      (if disc < 0 then Miss
       else if (if t0 < 1 / 10 ^ 4 then t1 else t0) < 1 / 10 ^ 4 then Miss
       else Hit (if t0 < 1 / 10 ^ 4 then t1 else t0)
              (normalize_v (vsub (vadd (ray_o ray) (smul (ray_d ray) (if t0 < 1 / 10 ^ 4 then t1 else t0)))
                 (center s))))"
    using apos by (simp add: intersect_sphere_def Let_def a b c disc t0 t1)
  have tsel: "(if t0 < 1 / 10 ^ 4 then t1 else t0) = t"
    using t by auto
  have p1: "intersect_sphere ray s = Miss \<longleftrightarrow> disc < 0 \<or> (t0 < 1 / 10 ^ 4 \<and> t1 < 1 / 10 ^ 4)"
    unfolding unfolded by auto
  have p3: "intersect_sphere ray s =
           Hit t (if radius s * radius s \<le> 1 / 10 ^ 8 then Vec3 0 0 0
                  else smul (vsub hitPoint (center s)) (1 / radius s))"
    if "\<not> (disc < 0 \<or> (t0 < 1 / 10 ^ 4 \<and> t1 < 1 / 10 ^ 4))"
  proof -
    from that have d0: "0 \<le> disc" by simp
    from that have "\<not> t < 1 / 10 ^ 4" using t by auto
    then show ?thesis
      unfolding unfolded tsel using d0 nrm [OF d0] by (simp add: hp)
  qed
  show ?thesis
    using p1 order root0 root1 p3 by blast
qed

text \<open>
  The theorem at the ray from \<open>(0, 0, 3)\<close> down the z axis and the unit sphere at the
  origin: the hit is at \<open>t = 2\<close> with normal \<open>(0, 0, 1)\<close>.
\<close>

theorem intersect_sphere_spec_witness:
  "ray_d (Ray (Vec3 0 0 3) (Vec3 0 0 (- 1))) \<noteq> Vec3 0 0 0 \<and>
   0 < radius (Sphere (Vec3 0 0 0) 1 (Vec3 1 0 0)) \<and>
   intersect_sphere (Ray (Vec3 0 0 3) (Vec3 0 0 (- 1))) (Sphere (Vec3 0 0 0) 1 (Vec3 1 0 0))
     = Hit 2 (Vec3 0 0 1)"
proof -
  let ?R = "Ray (Vec3 0 0 3) (Vec3 0 0 (- 1))" and ?S = "Sphere (Vec3 0 0 0) 1 (Vec3 1 0 0)"
  have dir: "ray_d ?R \<noteq> Vec3 0 0 0" by simp
  have rad: "0 < radius ?S" by simp
  have sq: "sqrt 4 = (2::real)"
    by (rule real_sqrt_unique) simp_all
  note th = intersect_sphere_spec [OF dir rad refl refl refl refl refl refl refl refl]
  have "intersect_sphere ?R ?S = Hit 2 (Vec3 0 0 1)"
    using th by (simp add: dot_def vsub_def vadd_def smul_def sq)
  with dir rad show ?thesis by blast
qed

text \<open>
  C1 as stated, for every radius \<open>r > 0\<close>, fails on a sphere of radius \<open>1/20000\<close>: the ray
  from \<open>(0, 0, 1/1000)\<close> down the z axis hits it at \<open>t = 19/20000\<close>, where
  \<open>(hitPoint - center) / r = (0, 0, 1)\<close>, and the code returns the zero vector as normal.
\<close>

theorem intersect_sphere_counterexample:
  "intersect_sphere (Ray (Vec3 0 0 (1 / 1000)) (Vec3 0 0 (- 1)))
       (Sphere (Vec3 0 0 0) (1 / 20000) (Vec3 1 1 1))
     = Hit (19 / 20000) (Vec3 0 0 0)
   \<and> smul (vsub (vadd (Vec3 0 0 (1 / 1000)) (smul (Vec3 0 0 (- 1)) (19 / 20000))) (Vec3 0 0 0))
        (1 / (1 / 20000)) = Vec3 0 0 1"
proof -
  have sq: "sqrt (1 / 100000000) = (1 / 10000 :: real)"
    by (rule real_sqrt_unique) (simp_all add: power2_eq_square)
  show ?thesis
    by (simp add: intersect_sphere_def Let_def dot_def vsub_def vadd_def smul_def normalize_v_def sq)
qed

subsection \<open>Ray and room plane\<close>

text \<open>
  C2. \<^verbatim>\<open>intersect_plane\<close> reports no hit when \<open>\<bar>dot n d\<bar> < 1e-6\<close>, when
  \<open>t = - (dot n o + d_pl) / dot n d\<close> is below \<open>1e-4\<close>, or when the point \<open>o + t d\<close> lies outside
  \<open>[-1e-3, 5 + 1e-3] \<times> [-1e-3, 3 + 1e-3] \<times> [-1e-3, 5 + 1e-3]\<close>; in every other case it
  succeeds with that \<open>t\<close> and the plane's own normal. In particular a ray parallel to the
  plane, \<open>dot n d = 0\<close>, never hits.
\<close>

theorem intersect_plane_spec:
  "intersect_plane ray pl =
     (let n = pl_n pl; t = - (dot n (ray_o ray) + pl_d pl) / dot n (ray_d ray);
          p = vadd (ray_o ray) (smul (ray_d ray) t)
      in if \<bar>dot n (ray_d ray)\<bar> < 1 / 10 ^ 6 \<or> t < 1 / 10 ^ 4 \<or>
            \<not> (- (1 / 10 ^ 3) \<le> vx p \<and> vx p \<le> 5 + 1 / 10 ^ 3 \<and>
               - (1 / 10 ^ 3) \<le> vy p \<and> vy p \<le> 3 + 1 / 10 ^ 3 \<and>
               - (1 / 10 ^ 3) \<le> vz p \<and> vz p \<le> 5 + 1 / 10 ^ 3)
         then Miss else Hit t n)
   \<and> (dot (pl_n pl) (ray_d ray) = 0 \<longrightarrow> intersect_plane ray pl = Miss)"
  by (auto simp add: intersect_plane_def Let_def)

text \<open>
  The theorem at a ray along the floor (parallel, no hit) and at the ray straight down
  from \<open>(2.5, 2.9, 2.5)\<close>, which hits the floor at \<open>t = 2.9\<close> with normal \<open>(0, 1, 0)\<close>.
\<close>

theorem intersect_plane_spec_witness:
  "dot (pl_n (Plane (Vec3 0 1 0) 0 (Vec3 0.45 0.30 0.15))) (ray_d (Ray (Vec3 2.5 1 2.5) (Vec3 1 0 0))) = 0
   \<and> intersect_plane (Ray (Vec3 2.5 1 2.5) (Vec3 1 0 0)) (Plane (Vec3 0 1 0) 0 (Vec3 0.45 0.30 0.15)) = Miss
   \<and> intersect_plane (Ray (Vec3 2.5 2.9 2.5) (Vec3 0 (- 1) 0)) (Plane (Vec3 0 1 0) 0 (Vec3 0.45 0.30 0.15))
       = Hit 2.9 (Vec3 0 1 0)"
proof -
  let ?pl = "Plane (Vec3 0 1 0) 0 (Vec3 0.45 0.30 0.15)"
  have par: "dot (pl_n ?pl) (ray_d (Ray (Vec3 2.5 1 2.5) (Vec3 1 0 0))) = 0"
    by (simp add: dot_def)
  have miss: "intersect_plane (Ray (Vec3 2.5 1 2.5) (Vec3 1 0 0)) ?pl = Miss"
    using intersect_plane_spec [of "Ray (Vec3 2.5 1 2.5) (Vec3 1 0 0)" ?pl] par by blast
  have down: "intersect_plane (Ray (Vec3 2.5 2.9 2.5) (Vec3 0 (- 1) 0)) ?pl = Hit 2.9 (Vec3 0 1 0)"
    using intersect_plane_spec [of "Ray (Vec3 2.5 2.9 2.5) (Vec3 0 (- 1) 0)" ?pl]
    by (simp add: Let_def dot_def vadd_def smul_def)
  from par miss down show ?thesis by blast
qed

subsection \<open>Divisions\<close>

text \<open>
  C10. \<^verbatim>\<open>normalize\<close> divides only when \<open>dot v v > 1e-8\<close>, by a divisor that is not zero, and
  returns the zero vector otherwise; \<^verbatim>\<open>intersect_plane\<close> divides only when
  \<open>\<bar>dot n d\<bar> \<ge> 1e-6\<close>, by \<open>dot n d\<close>, which is then not zero; \<^verbatim>\<open>intersect_sphere\<close> divides by
  \<open>2 * dot d d\<close> without a test: for a unit direction the divisor is 2 and the function never
  divides by zero, for the zero direction it divides by zero on every sphere, and it
  divides by zero in no other case.
\<close>

theorem divisions_guarded:
  "(\<forall>x. normalize_divisor v = Some x \<longrightarrow>
        x \<noteq> 0 \<and> 1 / 10 ^ 8 < dot v v \<and> normalize_v v = smul v (1 / x))
   \<and> (normalize_divisor v = None \<longrightarrow> dot v v \<le> 1 / 10 ^ 8 \<and> normalize_v v = Vec3 0 0 0)
   \<and> (\<forall>x. intersect_plane_divisor ray pl = Some x \<longrightarrow>
          x \<noteq> 0 \<and> x = dot (pl_n pl) (ray_d ray) \<and> 1 / 10 ^ 6 \<le> \<bar>dot (pl_n pl) (ray_d ray)\<bar>)
   \<and> (intersect_plane_divisor ray pl = None \<longrightarrow> intersect_plane ray pl = Miss)
   \<and> (dot (ray_d ray) (ray_d ray) = 1 \<longrightarrow>
          (\<forall>x. intersect_sphere_divisor ray s = Some x \<longrightarrow> x = 2) \<and> intersect_sphere ray s \<noteq> HitNaN)
   \<and> (ray_d ray = Vec3 0 0 0 \<longrightarrow>
          intersect_sphere_divisor ray s = Some 0 \<and> intersect_sphere ray s = HitNaN)
   \<and> (intersect_sphere ray s = HitNaN \<longleftrightarrow> intersect_sphere_divisor ray s = Some 0)"
proof -
  have n1: "\<forall>x. normalize_divisor v = Some x \<longrightarrow>
      x \<noteq> 0 \<and> 1 / 10 ^ 8 < dot v v \<and> normalize_v v = smul v (1 / x)"
    by (auto simp add: normalize_divisor_def normalize_v_def Let_def split: if_splits)
  have n2: "normalize_divisor v = None \<longrightarrow> dot v v \<le> 1 / 10 ^ 8 \<and> normalize_v v = Vec3 0 0 0"
    by (auto simp add: normalize_divisor_def normalize_v_def Let_def split: if_splits)
  have p1: "\<forall>x. intersect_plane_divisor ray pl = Some x \<longrightarrow>
      x \<noteq> 0 \<and> x = dot (pl_n pl) (ray_d ray) \<and> 1 / 10 ^ 6 \<le> \<bar>dot (pl_n pl) (ray_d ray)\<bar>"
    by (auto simp add: intersect_plane_divisor_def Let_def split: if_splits)
  have p2: "intersect_plane_divisor ray pl = None \<longrightarrow> intersect_plane ray pl = Miss"
    by (auto simp add: intersect_plane_divisor_def intersect_plane_def Let_def split: if_splits)
  have s1: "dot (ray_d ray) (ray_d ray) = 1 \<longrightarrow>
      (\<forall>x. intersect_sphere_divisor ray s = Some x \<longrightarrow> x = 2) \<and> intersect_sphere ray s \<noteq> HitNaN"
    by (auto simp add: intersect_sphere_divisor_def intersect_sphere_HitNaN_iff Let_def dot_def
          split: if_splits)
  have s2: "ray_d ray = Vec3 0 0 0 \<longrightarrow>
      intersect_sphere_divisor ray s = Some 0 \<and> intersect_sphere ray s = HitNaN"
    by (simp add: intersect_sphere_divisor_def intersect_sphere_HitNaN_iff Let_def dot_def)
  have s3: "intersect_sphere ray s = HitNaN \<longleftrightarrow> intersect_sphere_divisor ray s = Some 0"
    by (auto simp add: intersect_sphere_divisor_def intersect_sphere_def Let_def split: if_splits)
  from n1 n2 p1 p2 s1 s2 s3 show ?thesis by blast
qed

text \<open>
  The theorem at the degenerate vector \<open>(0, 0, 0)\<close>, which \<^verbatim>\<open>normalize\<close> maps to the zero
  direction, at a ray with that direction, and at a ray with a unit direction.
\<close>

theorem divisions_guarded_witness:
  "normalize_divisor (Vec3 0 0 0) = None \<and> normalize_v (Vec3 0 0 0) = Vec3 0 0 0
   \<and> ray_d (Ray (Vec3 0 0 3) (Vec3 0 0 0)) = Vec3 0 0 0
   \<and> intersect_sphere_divisor (Ray (Vec3 0 0 3) (Vec3 0 0 0)) (Sphere (Vec3 0 0 0) 1 (Vec3 1 0 0)) = Some 0
   \<and> intersect_sphere (Ray (Vec3 0 0 3) (Vec3 0 0 0)) (Sphere (Vec3 0 0 0) 1 (Vec3 1 0 0)) = HitNaN
   \<and> dot (ray_d (Ray (Vec3 0 0 3) (Vec3 0 0 (- 1)))) (ray_d (Ray (Vec3 0 0 3) (Vec3 0 0 (- 1)))) = 1
   \<and> intersect_sphere (Ray (Vec3 0 0 3) (Vec3 0 0 (- 1))) (Sphere (Vec3 0 0 0) 1 (Vec3 1 0 0)) \<noteq> HitNaN"
proof -
  let ?S = "Sphere (Vec3 0 0 0) 1 (Vec3 1 0 0)"
  have z: "normalize_divisor (Vec3 0 0 0) = None"
    by (simp add: normalize_divisor_def dot_def)
  have zd: "ray_d (Ray (Vec3 0 0 3) (Vec3 0 0 0)) = Vec3 0 0 0"
    by simp
  have ud: "dot (ray_d (Ray (Vec3 0 0 3) (Vec3 0 0 (- 1)))) (ray_d (Ray (Vec3 0 0 3) (Vec3 0 0 (- 1)))) = 1"
    by (simp add: dot_def)
  from divisions_guarded [of "Vec3 0 0 0" "Ray (Vec3 0 0 3) (Vec3 0 0 0)" "Plane (Vec3 0 1 0) 0 (Vec3 1 1 1)" ?S]
    divisions_guarded [of "Vec3 0 0 0" "Ray (Vec3 0 0 3) (Vec3 0 0 (- 1))" "Plane (Vec3 0 1 0) 0 (Vec3 1 1 1)" ?S]
    z zd ud
  show ?thesis by blast
qed

subsection \<open>Shading\<close>

text \<open>Each shadow loop finds out whether some primitive of its list occludes the light.\<close>

lemma shadow_spheres_iff:
  "shadow_spheres r ld ss \<longleftrightarrow>
     (\<exists>s \<in> set ss. \<exists>t n. intersect_sphere r s = Hit t n \<and> t < ld - 1 / 10 ^ 3)"
  by (induction ss) (auto split: isect.splits)

lemma shadow_planes_iff:
  "shadow_planes r ld pls \<longleftrightarrow>
     (\<exists>pl \<in> set pls. \<exists>t n. intersect_plane r pl = Hit t n \<and> t < ld - 1 / 10 ^ 3)"
  by (induction pls) (auto split: isect.splits)

lemma vadd_smul_zero: "vadd a (smul v 0) = a"
  by (cases a) (simp add: vadd_def smul_def)

lemma if_True_else: "(if A then True else B) = (A \<or> B)"
  by simp

text \<open>
  C3. With \<open>L\<close> the normalised direction from the hit point to the light,
  \<open>H = normalize (L + viewDir)\<close> and \<open>diff = max 0 (dot normal L)\<close>: when the shadow ray from
  \<open>hitPoint + 1e-3 * normal\<close> towards the light hits some sphere or some plane at
  \<open>t < lightDist - 1e-3\<close>, \<^verbatim>\<open>shade\<close> returns the ambient colour \<open>clamp01 (albedo * 0.2)\<close>, and
  otherwise \<open>clamp01 (albedo * (0.2 + diff * 0.8) + (1,1,1) * 0.3 * (max 0 (dot normal H))^32)\<close>.
\<close>

theorem shade_spec:
  "shade sc hitPoint normal albedo viewDir =
     (let L = normalize_v (vsub (g_lightPos sc) hitPoint);
          lightDist = length_v (vsub (g_lightPos sc) hitPoint);
          shadowRay = Ray (vadd hitPoint (smul normal (1 / 10 ^ 3))) L;
          H = normalize_v (vadd L viewDir);
          diff = max 0 (dot normal L)
      in if (\<exists>s \<in> set (g_spheres sc). \<exists>t n.
               intersect_sphere shadowRay s = Hit t n \<and> t < lightDist - 1 / 10 ^ 3)
          \<or> (\<exists>pl \<in> set (g_planes sc). \<exists>t n.
               intersect_plane shadowRay pl = Hit t n \<and> t < lightDist - 1 / 10 ^ 3)
         then clamp01 (smul albedo 0.2)
         else clamp01 (vadd (smul albedo (0.2 + diff * 0.8))
                            (smul (Vec3 1 1 1) (max 0 (dot normal H) ^ 32 * 0.3))))"
proof -
  let ?L = "normalize_v (vsub (g_lightPos sc) hitPoint)"
  let ?ld = "length_v (vsub (g_lightPos sc) hitPoint)"
  let ?R = "Ray (vadd hitPoint (smul normal (1 / 10 ^ 3))) ?L"
  let ?E = "(\<exists>s \<in> set (g_spheres sc). \<exists>t n.
               intersect_sphere ?R s = Hit t n \<and> t < ?ld - 1 / 10 ^ 3)
          \<or> (\<exists>pl \<in> set (g_planes sc). \<exists>t n.
               intersect_plane ?R pl = Hit t n \<and> t < ?ld - 1 / 10 ^ 3)"
  have eq: "(if shadow_spheres ?R ?ld (g_spheres sc) then True
             else shadow_planes ?R ?ld (g_planes sc)) = ?E"
    unfolding shadow_spheres_iff shadow_planes_iff by (rule if_True_else)
  show ?thesis
  proof (cases ?E)
    case True
    show ?thesis
      unfolding shade_def Let_def eq if_P [OF True] by (simp add: vadd_smul_zero)
  next
    case False
    show ?thesis
      unfolding shade_def Let_def eq if_not_P [OF False] by (simp add: mult.commute)
  qed
qed

lemma sqrt_16: "sqrt 16 = (4::real)"
  by (rule real_sqrt_unique) simp_all

lemma sqrt_4: "sqrt 4 = (2::real)"
  by (rule real_sqrt_unique) simp_all

text \<open>
  The theorem at a point of the plane \<open>z = 0\<close> with the light straight above it and a unit
  sphere in between: the colour is the ambient one.
\<close>

theorem shade_spec_occluded:
  "shade \<lparr> g_spheres = [Sphere (Vec3 0 0 2) 1 (Vec3 1 0 0)], g_planes = [],
           g_lightPos = Vec3 0 0 4, g_camPos = Vec3 0 0 0, g_camLook = Vec3 0 0 0 \<rparr>
     (Vec3 0 0 0) (Vec3 0 0 1) (Vec3 1 0.5 0) (Vec3 0 0 1) = Vec3 0.2 0.1 0"
proof -
  let ?S = "Sphere (Vec3 0 0 2) 1 (Vec3 1 0 0)"
  let ?sc = "\<lparr> g_spheres = [?S], g_planes = [],
           g_lightPos = Vec3 0 0 4, g_camPos = Vec3 0 0 0, g_camLook = Vec3 0 0 0 \<rparr>"
  have L: "normalize_v (vsub (g_lightPos ?sc) (Vec3 0 0 0)) = Vec3 0 0 1"
    by (simp add: normalize_v_def vsub_def dot_def smul_def sqrt_16)
  have ld: "length_v (vsub (g_lightPos ?sc) (Vec3 0 0 0)) = 4"
    by (simp add: length_v_def vsub_def dot_def sqrt_16)
  have R: "vadd (Vec3 0 0 0) (smul (Vec3 0 0 1) (1 / 10 ^ 3)) = Vec3 0 0 (1 / 1000)"
    by (simp add: vadd_def smul_def)
  have h: "intersect_sphere (Ray (Vec3 0 0 (1 / 1000)) (Vec3 0 0 1)) ?S = Hit (999 / 1000) (Vec3 0 0 (- 1))"
    by (simp add: intersect_sphere_def Let_def dot_def vsub_def vadd_def smul_def normalize_v_def sqrt_4)
  have "\<exists>s \<in> set (g_spheres ?sc). \<exists>t n.
      intersect_sphere (Ray (vadd (Vec3 0 0 0) (smul (Vec3 0 0 1) (1 / 10 ^ 3)))
          (normalize_v (vsub (g_lightPos ?sc) (Vec3 0 0 0)))) s = Hit t n
      \<and> t < length_v (vsub (g_lightPos ?sc) (Vec3 0 0 0)) - 1 / 10 ^ 3"
    unfolding L ld R
    by (rule bexI [of _ ?S], rule exI [of _ "999 / 1000"], rule exI [of _ "Vec3 0 0 (- 1)"])
       (simp_all add: h)
  then have "shade ?sc (Vec3 0 0 0) (Vec3 0 0 1) (Vec3 1 0.5 0) (Vec3 0 0 1)
      = clamp01 (smul (Vec3 1 0.5 0) 0.2)"
    using shade_spec [of ?sc "Vec3 0 0 0" "Vec3 0 0 1" "Vec3 1 0.5 0" "Vec3 0 0 1"]
    unfolding Let_def by (simp only: if_True simp_thms)
  then show ?thesis
    by (simp add: clamp01_def smul_def)
qed

subsection \<open>The tracer: background and totality\<close>

lemma fold_sphere_step_miss:
  "\<forall>s \<in> set ss. intersect_sphere ray s = Miss \<Longrightarrow> fold (sphere_step ray) ss h = h"
  by (induction ss arbitrary: h) (simp_all add: sphere_step_def)

lemma fold_plane_step_miss:
  "\<forall>pl \<in> set pls. intersect_plane ray pl = Miss \<Longrightarrow> fold (plane_step ray) pls h = h"
  by (induction pls arbitrary: h) (simp_all add: plane_step_def)

lemma clamp01_range:
  "0 \<le> vx (clamp01 v) \<and> vx (clamp01 v) \<le> 1 \<and> 0 \<le> vy (clamp01 v) \<and> vy (clamp01 v) \<le> 1 \<and>
   0 \<le> vz (clamp01 v) \<and> vz (clamp01 v) \<le> 1"
  by (simp add: clamp01_def Let_def)

lemma trace_range:
  "0 \<le> vx (trace sc ray depth) \<and> vx (trace sc ray depth) \<le> 1 \<and>
   0 \<le> vy (trace sc ray depth) \<and> vy (trace sc ray depth) \<le> 1 \<and>
   0 \<le> vz (trace sc ray depth) \<and> vz (trace sc ray depth) \<le> 1"
proof (cases "hit (nearest_hit sc ray)")
  case False
  then have "trace sc ray depth = Vec3 0.2 0.3 0.5"
    by (subst trace.simps) (simp add: Let_def)
  then show ?thesis by simp
next
  case True
  then have "\<exists>v. trace sc ray depth = clamp01 v"
    by (subst trace.simps) (auto simp add: Let_def)
  then obtain v where "trace sc ray depth = clamp01 v" ..
  then show ?thesis by (simp only: clamp01_range)
qed

text \<open>
  C5. When every sphere and every plane of the scene reports no intersection with the
  ray, \<^verbatim>\<open>trace\<close> returns the background colour \<open>(0.2, 0.3, 0.5)\<close>, at every depth. \<^verbatim>\<open>trace\<close> has
  no failure path: the model is a total function (its recursion terminates, by the measure
  \<open>kMaxDepth - depth\<close>), and its value is always a colour with channels in \<open>[0, 1]\<close>.
\<close>

theorem trace_background:
  "((\<forall>s \<in> set (g_spheres sc). intersect_sphere ray s = Miss) \<and>
    (\<forall>pl \<in> set (g_planes sc). intersect_plane ray pl = Miss)
      \<longrightarrow> trace sc ray depth = Vec3 0.2 0.3 0.5)
   \<and> 0 \<le> vx (trace sc ray depth) \<and> vx (trace sc ray depth) \<le> 1
   \<and> 0 \<le> vy (trace sc ray depth) \<and> vy (trace sc ray depth) \<le> 1
   \<and> 0 \<le> vz (trace sc ray depth) \<and> vz (trace sc ray depth) \<le> 1"
proof -
  have "trace sc ray depth = Vec3 0.2 0.3 0.5"
    if "\<forall>s \<in> set (g_spheres sc). intersect_sphere ray s = Miss"
      and "\<forall>pl \<in> set (g_planes sc). intersect_plane ray pl = Miss"
  proof -
    have "nearest_hit sc ray = init_hit"
      using that by (simp add: nearest_hit_def fold_sphere_step_miss fold_plane_step_miss)
    then show ?thesis
      by (subst trace.simps) (simp add: Let_def init_hit_def)
  qed
  then show ?thesis
    using trace_range [of sc ray depth] by blast
qed

text \<open>
  The theorem in the scene of \<^verbatim>\<open>init_scene\<close>, at a ray that leaves the room through the
  missing front wall.
\<close>

theorem trace_background_front:
  "list_all (\<lambda>s. intersect_sphere (Ray (Vec3 2.5 1.5 4.5) (Vec3 0 0 1)) s = Miss)
     (g_spheres init_scene) \<and>
   list_all (\<lambda>pl. intersect_plane (Ray (Vec3 2.5 1.5 4.5) (Vec3 0 0 1)) pl = Miss)
     (g_planes init_scene) \<and>
   trace init_scene (Ray (Vec3 2.5 1.5 4.5) (Vec3 0 0 1)) 0 = Vec3 0.2 0.3 0.5"
proof -
  let ?R = "Ray (Vec3 2.5 1.5 4.5) (Vec3 0 0 1)"
  have s: "\<forall>s \<in> set (g_spheres init_scene). intersect_sphere ?R s = Miss"
    by (simp add: init_scene_def intersect_sphere_def Let_def dot_def vsub_def)
  have p: "\<forall>pl \<in> set (g_planes init_scene). intersect_plane ?R pl = Miss"
    by (simp add: init_scene_def intersect_plane_def Let_def dot_def vadd_def smul_def)
  from trace_background [of init_scene ?R 0] s p show ?thesis
    unfolding list_all_iff by blast
qed


subsection \<open>The tracer and its variant without reflection\<close>

text \<open>The definitions that evaluate the nearest-hit search on a concrete ray.\<close>

lemmas eval_defs = nearest_hit_def init_scene_def init_hit_def sphere_step_def plane_step_def
        intersect_sphere_def intersect_plane_def Let_def dot_def vsub_def vadd_def smul_def lmul_def
        reflRay_def reflDir_def normalize_v_def

lemma shade_gray:
  "vx (shade sc p n (Vec3 a a a) v) = vy (shade sc p n (Vec3 a a a) v)"
  by (simp add: shade_def Let_def clamp01_def vadd_def smul_def)

lemma shade_range:
  "0 \<le> vx (shade sc p n c v) \<and> vx (shade sc p n c v) \<le> 1"
  by (simp add: shade_def Let_def clamp01_def)

text \<open>
  C8 does not hold of the code. The claim is that \<^verbatim>\<open>trace\<close> returns the colour of the variant
  without the reflection branch, for every ray and depth. In the scene of \<^verbatim>\<open>init_scene\<close>,
  the ray from the camera position along the viewing direction hits the back wall, a
  plane; the plane loop has set \<^verbatim>\<open>hitReflectivity = 0.05f\<close>, the test
  \<^verbatim>\<open>hitReflectivity > 0.0f\<close> succeeds at depth 0, and the result is the blend of 95% of the
  local colour with 5% of the background colour that the reflected ray returns. The local
  colour is a grey (the wall is white), the background is not, so the blend differs from
  the local colour.
\<close>

theorem trace_reflection_live:
  "trace init_scene (Ray (Vec3 2.5 1.5 8) (Vec3 0 0 (- 1))) 0
     = clamp01 (vadd
         (lmul 0.95 (shade init_scene (Vec3 2.5 1.5 0) (Vec3 0 0 1) (Vec3 1 1 1) (Vec3 0 0 1)))
         (lmul 0.05 (Vec3 0.2 0.3 0.5)))
   \<and> trace_noreflect init_scene (Ray (Vec3 2.5 1.5 8) (Vec3 0 0 (- 1))) 0
     = clamp01 (shade init_scene (Vec3 2.5 1.5 0) (Vec3 0 0 1) (Vec3 1 1 1) (Vec3 0 0 1))
   \<and> trace init_scene (Ray (Vec3 2.5 1.5 8) (Vec3 0 0 (- 1))) 0
     \<noteq> trace_noreflect init_scene (Ray (Vec3 2.5 1.5 8) (Vec3 0 0 (- 1))) 0"
proof -
  let ?R = "Ray (Vec3 (5 / 2) (3 / 2) 8) (Vec3 0 0 (- 1))"
  let ?R1 = "Ray (Vec3 (5 / 2) (3 / 2) (1 / 1000)) (Vec3 0 0 1)"
  let ?h = "\<lparr> tMin = 8, hitNormal = Vec3 0 0 1, hitColor = Vec3 1 1 1,
        hitReflectivity = 1 / 20, hit = True \<rparr>"
  define lc where "lc = shade init_scene (Vec3 (5 / 2) (3 / 2) 0) (Vec3 0 0 1) (Vec3 1 1 1) (Vec3 0 0 1)"
  have h: "nearest_hit init_scene ?R = ?h"
    by (simp add: eval_defs)
  have r1: "reflRay ?R ?h = ?R1"
    by (simp add: eval_defs)
  have h1: "nearest_hit init_scene ?R1 = init_hit"
    by (simp add: eval_defs)
  have refl: "trace init_scene ?R1 1 = Vec3 (1 / 5) (3 / 10) (1 / 2)"
    by (subst trace.simps) (simp add: h1 Let_def init_hit_def)
  have pt: "vadd (Vec3 (5 / 2) (3 / 2) 8) (smul (Vec3 0 0 (- 1)) 8) = Vec3 (5 / 2) (3 / 2) 0"
    and vd: "normalize_v (smul (Vec3 0 0 (- 1)) (- 1)) = Vec3 0 0 1"
    by (simp_all add: vadd_def smul_def normalize_v_def dot_def)
  have full: "trace init_scene ?R 0
      = clamp01 (vadd (lmul (19 / 20) lc) (lmul (1 / 20) (Vec3 (1 / 5) (3 / 10) (1 / 2))))"
    by (subst trace.simps) (simp add: h Let_def r1 refl pt vd lc_def kMaxDepth_def)
  have cut: "trace_noreflect init_scene ?R 0 = clamp01 lc"
    by (simp add: trace_noreflect_def h Let_def pt vd lc_def)
  have gray: "vy lc = vx lc" and range: "0 \<le> vx lc" "vx lc \<le> 1"
    using shade_gray [of init_scene "Vec3 (5 / 2) (3 / 2) 0" "Vec3 0 0 1" 1 "Vec3 0 0 1"]
      shade_range [of init_scene "Vec3 (5 / 2) (3 / 2) 0" "Vec3 0 0 1" "Vec3 1 1 1" "Vec3 0 0 1"]
    by (simp_all add: lc_def)
  have ne: "trace init_scene ?R 0 \<noteq> trace_noreflect init_scene ?R 0"
  proof
    assume "trace init_scene ?R 0 = trace_noreflect init_scene ?R 0"
    then have "clamp01 (vadd (lmul (19 / 20) lc) (lmul (1 / 20) (Vec3 (1 / 5) (3 / 10) (1 / 2))))
        = clamp01 lc"
      by (simp only: full cut)
    then have
      "vx (clamp01 (vadd (lmul (19 / 20) lc) (lmul (1 / 20) (Vec3 (1 / 5) (3 / 10) (1 / 2)))))
         = vx (clamp01 lc)"
      "vy (clamp01 (vadd (lmul (19 / 20) lc) (lmul (1 / 20) (Vec3 (1 / 5) (3 / 10) (1 / 2)))))
         = vy (clamp01 lc)"
      by simp_all
    then show False
      using gray range by (simp add: clamp01_def vadd_def lmul_def split: if_splits)
  qed
  from full cut ne show ?thesis
    unfolding lc_def by simp
qed

subsection \<open>The tracer: recursion depth\<close>

text \<open>Induction along the one recursive call of \<^verbatim>\<open>trace\<close>.\<close>

lemma trace_chain_induct [case_names step]:
  assumes "\<And>sc ray depth.
     (hit (nearest_hit sc ray) \<Longrightarrow> depth < kMaxDepth \<Longrightarrow> 0 < hitReflectivity (nearest_hit sc ray)
        \<Longrightarrow> P sc (reflRay ray (nearest_hit sc ray)) (depth + 1))
     \<Longrightarrow> P sc ray depth"
  shows "P sc ray depth"
proof (induction sc ray depth rule: trace.induct)
  case (1 sc ray depth)
  show ?case
    by (rule assms) (rule "1.IH" [OF refl _ refl refl refl], simp_all)
qed

text \<open>The three ways through \<open>trace_log\<close>, and the colour it returns.\<close>

lemma trace_log_rec:
  assumes "hit (nearest_hit sc ray)" and "depth < kMaxDepth"
    and "0 < hitReflectivity (nearest_hit sc ray)"
  shows "trace_log sc ray depth =
     (clamp01 (vadd
        (lmul (1 - hitReflectivity (nearest_hit sc ray))
           (shade sc (vadd (ray_o ray) (smul (ray_d ray) (tMin (nearest_hit sc ray))))
              (hitNormal (nearest_hit sc ray)) (hitColor (nearest_hit sc ray))
              (normalize_v (smul (ray_d ray) (- 1)))))
        (lmul (hitReflectivity (nearest_hit sc ray))
           (fst (trace_log sc (reflRay ray (nearest_hit sc ray)) (depth + 1))))),
      (ray, depth) # fst (snd (trace_log sc (reflRay ray (nearest_hit sc ray)) (depth + 1))),
      1 + snd (snd (trace_log sc (reflRay ray (nearest_hit sc ray)) (depth + 1))))"
  using assms by (subst trace_log.simps) (simp add: Let_def split: prod.splits)

lemma trace_log_leaf:
  assumes "hit (nearest_hit sc ray)"
    and "\<not> (depth < kMaxDepth \<and> 0 < hitReflectivity (nearest_hit sc ray))"
  shows "trace_log sc ray depth =
     (clamp01 (shade sc (vadd (ray_o ray) (smul (ray_d ray) (tMin (nearest_hit sc ray))))
              (hitNormal (nearest_hit sc ray)) (hitColor (nearest_hit sc ray))
              (normalize_v (smul (ray_d ray) (- 1)))),
      [(ray, depth)], 1)"
  using assms by (subst trace_log.simps) (auto simp add: Let_def)

lemma trace_log_miss:
  assumes "\<not> hit (nearest_hit sc ray)"
  shows "trace_log sc ray depth = (Vec3 0.2 0.3 0.5, [(ray, depth)], 0)"
  using assms by (subst trace_log.simps) (simp add: Let_def)

lemma trace_log_trace: "fst (trace_log sc ray depth) = trace sc ray depth"
proof (induction sc ray depth rule: trace_chain_induct)
  case (step sc ray depth)
  let ?h = "nearest_hit sc ray"
  consider (miss) "\<not> hit ?h"
    | (leaf) "hit ?h" "\<not> (depth < kMaxDepth \<and> 0 < hitReflectivity ?h)"
    | (rec) "hit ?h" "depth < kMaxDepth" "0 < hitReflectivity ?h"
    by blast
  then show ?case
  proof cases
    case miss
    then show ?thesis
      by (subst trace.simps) (simp add: trace_log_miss Let_def)
  next
    case leaf
    then show ?thesis
      by (subst trace.simps) (auto simp add: trace_log_leaf Let_def)
  next
    case rec
    from step [OF rec] rec show ?thesis
      by (subst trace.simps) (simp add: trace_log_rec Let_def)
  qed
qed

lemma trace_rays_unfold:
  "trace_rays sc ray depth =
     (if hit (nearest_hit sc ray) \<and> depth < kMaxDepth \<and> 0 < hitReflectivity (nearest_hit sc ray)
      then (ray, depth) # trace_rays sc (reflRay ray (nearest_hit sc ray)) (depth + 1)
      else [(ray, depth)])"
proof (cases "hit (nearest_hit sc ray)")
  case False
  then show ?thesis by (simp add: trace_rays_def trace_log_miss)
next
  case True
  then show ?thesis
    by (cases "depth < kMaxDepth \<and> 0 < hitReflectivity (nearest_hit sc ray)")
       (auto simp add: trace_rays_def trace_log_rec trace_log_leaf)
qed

lemma trace_shades_unfold:
  "trace_shades sc ray depth =
     (if \<not> hit (nearest_hit sc ray) then 0
      else if depth < kMaxDepth \<and> 0 < hitReflectivity (nearest_hit sc ray)
      then 1 + trace_shades sc (reflRay ray (nearest_hit sc ray)) (depth + 1)
      else 1)"
proof (cases "hit (nearest_hit sc ray)")
  case False
  then show ?thesis by (simp add: trace_shades_def trace_log_miss)
next
  case True
  then show ?thesis
    by (cases "depth < kMaxDepth \<and> 0 < hitReflectivity (nearest_hit sc ray)")
       (auto simp add: trace_shades_def trace_log_rec trace_log_leaf)
qed

lemma trace_log_parts:
  "trace_log sc ray depth = (trace sc ray depth, trace_rays sc ray depth, trace_shades sc ray depth)"
  by (simp add: trace_rays_def trace_shades_def trace_log_trace [symmetric])


lemma trace_rays_depths:
  "map snd (trace_rays sc ray depth) = [depth..depth + int (length (trace_rays sc ray depth)) - 1]"
proof (induction sc ray depth rule: trace_chain_induct)
  case (step sc ray depth)
  show ?case
  proof (cases "hit (nearest_hit sc ray) \<and> depth < kMaxDepth \<and> hitReflectivity (nearest_hit sc ray) > 0")
    case True
    then have unf: "trace_rays sc ray depth =
        (ray, depth) # trace_rays sc (reflRay ray (nearest_hit sc ray)) (depth + 1)"
      by (subst trace_rays_unfold) simp
    have ih: "map snd (trace_rays sc (reflRay ray (nearest_hit sc ray)) (depth + 1)) =
        [depth + 1..depth + 1 + int (length (trace_rays sc (reflRay ray (nearest_hit sc ray)) (depth + 1))) - 1]"
      using step True by simp
    show ?thesis
      unfolding unf using ih by (simp add: upto_rec1 [of depth])
  next
    case False
    then have "trace_rays sc ray depth = [(ray, depth)]"
      by (subst trace_rays_unfold) auto
    then show ?thesis by simp
  qed
qed

lemma trace_rays_length:
  "1 \<le> length (trace_rays sc ray depth) \<and>
   length (trace_rays sc ray depth) \<le> nat (kMaxDepth - depth) + 1"
proof (induction sc ray depth rule: trace_chain_induct)
  case (step sc ray depth)
  show ?case
  proof (cases "hit (nearest_hit sc ray) \<and> depth < kMaxDepth \<and> hitReflectivity (nearest_hit sc ray) > 0")
    case True
    then have unf: "trace_rays sc ray depth =
        (ray, depth) # trace_rays sc (reflRay ray (nearest_hit sc ray)) (depth + 1)"
      by (subst trace_rays_unfold) simp
    have ih: "length (trace_rays sc (reflRay ray (nearest_hit sc ray)) (depth + 1))
        \<le> nat (kMaxDepth - (depth + 1)) + 1"
      using step True by simp
    show ?thesis
      unfolding unf using ih True by simp arith
  next
    case False
    then have "trace_rays sc ray depth = [(ray, depth)]"
      by (subst trace_rays_unfold) auto
    then show ?thesis by simp
  qed
qed

lemma trace_rays_leaf:
  "kMaxDepth \<le> depth \<Longrightarrow> trace_rays sc ray depth = [(ray, depth)]"
  by (subst trace_rays_unfold) simp

lemma trace_shades_le:
  "trace_shades sc ray depth \<le> length (trace_rays sc ray depth)"
proof (induction sc ray depth rule: trace_chain_induct)
  case (step sc ray depth)
  show ?case
  proof (cases "hit (nearest_hit sc ray) \<and> depth < kMaxDepth \<and> hitReflectivity (nearest_hit sc ray) > 0")
    case True
    then have unf: "trace_rays sc ray depth =
        (ray, depth) # trace_rays sc (reflRay ray (nearest_hit sc ray)) (depth + 1)"
      by (subst trace_rays_unfold) simp
    from True have unf': "trace_shades sc ray depth =
        1 + trace_shades sc (reflRay ray (nearest_hit sc ray)) (depth + 1)"
      by (subst trace_shades_unfold) simp
    show ?thesis
      unfolding unf unf' using step True by simp
  next
    case False
    then have "trace_rays sc ray depth = [(ray, depth)]"
      by (subst trace_rays_unfold) auto
    moreover from False have "trace_shades sc ray depth \<le> 1"
      by (subst trace_shades_unfold) auto
    ultimately show ?thesis by simp
  qed
qed

lemma trace_shades_chain:
  assumes "hit (nearest_hit sc r0)" "0 < hitReflectivity (nearest_hit sc r0)"
    and "r1 = reflRay r0 (nearest_hit sc r0)"
    and "hit (nearest_hit sc r1)" "0 < hitReflectivity (nearest_hit sc r1)"
    and "r2 = reflRay r1 (nearest_hit sc r1)"
    and "hit (nearest_hit sc r2)"
  shows "trace_shades sc r0 0 = 3"
proof -
  have s2: "trace_shades sc r2 2 = 1"
    using assms(7) by (subst trace_shades_unfold) (simp add: kMaxDepth_def)
  have s1: "trace_shades sc r1 1 = 1 + trace_shades sc r2 2"
    using assms(4,5,6) by (subst trace_shades_unfold) (simp add: kMaxDepth_def)
  have s0: "trace_shades sc r0 0 = 1 + trace_shades sc r1 1"
    using assms(1,2,3) by (subst trace_shades_unfold) (simp add: kMaxDepth_def)
  show ?thesis using s0 s1 s2 by simp
qed

text \<open>
  C6. A call of \<^verbatim>\<open>trace\<close> computes the colour that the logged run \<open>trace_log\<close> computes, and
  the log of that run shows: an invocation is followed by at most one further invocation,
  the one for the reflected ray at \<open>depth + 1\<close>, and by none unless it found a reflective hit
  at \<open>depth < kMaxDepth\<close>; so the invocations form a chain at the depths
  \<open>depth, depth + 1, ...\<close> of length at most \<open>kMaxDepth - depth + 1\<close>, and of length 1 when
  \<open>depth \<ge> kMaxDepth = 2\<close>. Each invocation evaluates \<^verbatim>\<open>shade\<close> at most once, so a primary ray
  (depth 0) causes at most 3 invocations and at most 3 shading evaluations; it causes
  exactly 3 when the primary ray and its first two reflections all hit a surface and the
  first two hits are reflective.
\<close>

theorem trace_recursion_bound:
  "trace_log sc ray depth = (trace sc ray depth, trace_rays sc ray depth, trace_shades sc ray depth)
   \<and> trace_rays sc ray depth =
       (if hit (nearest_hit sc ray) \<and> depth < kMaxDepth \<and> 0 < hitReflectivity (nearest_hit sc ray)
        then (ray, depth) # trace_rays sc (reflRay ray (nearest_hit sc ray)) (depth + 1)
        else [(ray, depth)])
   \<and> map snd (trace_rays sc ray depth) = [depth..depth + int (length (trace_rays sc ray depth)) - 1]
   \<and> 1 \<le> length (trace_rays sc ray depth)
   \<and> length (trace_rays sc ray depth) \<le> nat (kMaxDepth - depth) + 1
   \<and> (kMaxDepth \<le> depth \<longrightarrow> trace_rays sc ray depth = [(ray, depth)])
   \<and> trace_shades sc ray depth \<le> length (trace_rays sc ray depth)
   \<and> length (trace_rays sc ray 0) \<le> 3
   \<and> trace_shades sc ray 0 \<le> 3
   \<and> (hit (nearest_hit sc ray) \<and> 0 < hitReflectivity (nearest_hit sc ray) \<and>
      hit (nearest_hit sc (reflRay ray (nearest_hit sc ray))) \<and>
      0 < hitReflectivity (nearest_hit sc (reflRay ray (nearest_hit sc ray))) \<and>
      hit (nearest_hit sc (reflRay (reflRay ray (nearest_hit sc ray))
             (nearest_hit sc (reflRay ray (nearest_hit sc ray)))))
      \<longrightarrow> trace_shades sc ray 0 = 3)"
proof -
  have l0: "length (trace_rays sc ray 0) \<le> 3"
    using trace_rays_length [of sc ray 0] by (simp add: kMaxDepth_def)
  have s0: "trace_shades sc ray 0 \<le> 3"
    using trace_shades_le [of sc ray 0] l0 by simp
  show ?thesis
    using trace_log_parts [of sc ray depth] trace_rays_unfold [of sc ray depth]
      trace_rays_depths [of sc ray depth] trace_rays_length [of sc ray depth]
      trace_rays_leaf [of depth sc ray] trace_shades_le [of sc ray depth] l0 s0
      trace_shades_chain [of sc ray, OF _ _ refl _ _ refl]
    by blast
qed

text \<open>
  The ray straight down from the middle of the room of \<^verbatim>\<open>init_scene\<close>: it hits the floor,
  its reflection the ceiling, and the reflection of that the floor again.
\<close>

lemma chain_h0:
  "nearest_hit init_scene (Ray (Vec3 2.5 1.5 2.5) (Vec3 0 (- 1) 0)) =
      \<lparr> tMin = 1.5, hitNormal = Vec3 0 1 0, hitColor = Vec3 0.45 0.30 0.15,
        hitReflectivity = 0.05, hit = True \<rparr>"
  by (simp add: eval_defs)

lemma chain_r1:
  "reflRay (Ray (Vec3 2.5 1.5 2.5) (Vec3 0 (- 1) 0))
     (nearest_hit init_scene (Ray (Vec3 2.5 1.5 2.5) (Vec3 0 (- 1) 0)))
     = Ray (Vec3 2.5 0.001 2.5) (Vec3 0 1 0)"
  unfolding chain_h0 by (simp add: eval_defs)

lemma chain_h1:
  "nearest_hit init_scene (Ray (Vec3 2.5 0.001 2.5) (Vec3 0 1 0)) =
      \<lparr> tMin = 2.999, hitNormal = Vec3 0 (- 1) 0, hitColor = Vec3 1 1 1,
        hitReflectivity = 0.05, hit = True \<rparr>"
  by (simp add: eval_defs)

lemma chain_r2:
  "reflRay (Ray (Vec3 2.5 0.001 2.5) (Vec3 0 1 0))
     (nearest_hit init_scene (Ray (Vec3 2.5 0.001 2.5) (Vec3 0 1 0)))
     = Ray (Vec3 2.5 2.999 2.5) (Vec3 0 (- 1) 0)"
  unfolding chain_h1 by (simp add: eval_defs)

lemma chain_h2:
  "nearest_hit init_scene (Ray (Vec3 2.5 2.999 2.5) (Vec3 0 (- 1) 0)) =
      \<lparr> tMin = 2.999, hitNormal = Vec3 0 1 0, hitColor = Vec3 0.45 0.30 0.15,
        hitReflectivity = 0.05, hit = True \<rparr>"
  by (simp add: eval_defs)

lemma chain_rays:
  "trace_rays init_scene (Ray (Vec3 2.5 1.5 2.5) (Vec3 0 (- 1) 0)) 0 =
     [(Ray (Vec3 2.5 1.5 2.5) (Vec3 0 (- 1) 0), 0),
      (Ray (Vec3 2.5 0.001 2.5) (Vec3 0 1 0), 1),
      (Ray (Vec3 2.5 2.999 2.5) (Vec3 0 (- 1) 0), 2)]"
proof -
  have t2: "trace_rays init_scene (Ray (Vec3 2.5 2.999 2.5) (Vec3 0 (- 1) 0)) 2
      = [(Ray (Vec3 2.5 2.999 2.5) (Vec3 0 (- 1) 0), 2)]"
    by (subst trace_rays_unfold) (simp add: kMaxDepth_def)
  have t1: "trace_rays init_scene (Ray (Vec3 2.5 0.001 2.5) (Vec3 0 1 0)) 1
      = (Ray (Vec3 2.5 0.001 2.5) (Vec3 0 1 0), 1)
        # trace_rays init_scene (Ray (Vec3 2.5 2.999 2.5) (Vec3 0 (- 1) 0)) 2"
    by (subst trace_rays_unfold, unfold chain_r2, unfold chain_h1) (simp add: kMaxDepth_def)
  have t0: "trace_rays init_scene (Ray (Vec3 2.5 1.5 2.5) (Vec3 0 (- 1) 0)) 0
      = (Ray (Vec3 2.5 1.5 2.5) (Vec3 0 (- 1) 0), 0)
        # trace_rays init_scene (Ray (Vec3 2.5 0.001 2.5) (Vec3 0 1 0)) 1"
    by (subst trace_rays_unfold, unfold chain_r1, unfold chain_h0) (simp add: kMaxDepth_def)
  show ?thesis
    unfolding t0 t1 t2 ..
qed

text \<open>The theorem at that ray, at depth 0 and at depth 2.\<close>

theorem trace_recursion_bound_witness:
  "hit (nearest_hit init_scene (Ray (Vec3 2.5 1.5 2.5) (Vec3 0 (- 1) 0)))
   \<and> trace_log init_scene (Ray (Vec3 2.5 1.5 2.5) (Vec3 0 (- 1) 0)) 0
       = (trace init_scene (Ray (Vec3 2.5 1.5 2.5) (Vec3 0 (- 1) 0)) 0,
          [(Ray (Vec3 2.5 1.5 2.5) (Vec3 0 (- 1) 0), 0),
           (Ray (Vec3 2.5 0.001 2.5) (Vec3 0 1 0), 1),
           (Ray (Vec3 2.5 2.999 2.5) (Vec3 0 (- 1) 0), 2)],
          3)
   \<and> kMaxDepth \<le> 2
   \<and> trace_log init_scene (Ray (Vec3 2.5 1.5 2.5) (Vec3 0 (- 1) 0)) 2
       = (trace init_scene (Ray (Vec3 2.5 1.5 2.5) (Vec3 0 (- 1) 0)) 2,
          [(Ray (Vec3 2.5 1.5 2.5) (Vec3 0 (- 1) 0), 2)], 1)"
proof -
  let ?R0 = "Ray (Vec3 2.5 1.5 2.5) (Vec3 0 (- 1) 0)"
  have k: "kMaxDepth \<le> 2" by (simp add: kMaxDepth_def)
  have hyp: "hit (nearest_hit init_scene ?R0) \<and> 0 < hitReflectivity (nearest_hit init_scene ?R0) \<and>
      hit (nearest_hit init_scene (reflRay ?R0 (nearest_hit init_scene ?R0))) \<and>
      0 < hitReflectivity (nearest_hit init_scene (reflRay ?R0 (nearest_hit init_scene ?R0))) \<and>
      hit (nearest_hit init_scene (reflRay (reflRay ?R0 (nearest_hit init_scene ?R0))
             (nearest_hit init_scene (reflRay ?R0 (nearest_hit init_scene ?R0)))))"
    unfolding chain_r1 chain_r2 unfolding chain_h0 chain_h1 chain_h2 by simp
  have s2: "trace_shades init_scene ?R0 2 = 1"
    by (subst trace_shades_unfold, unfold chain_h0) (simp add: kMaxDepth_def)
  from trace_recursion_bound [of init_scene ?R0 0] hyp
  have a: "trace_log init_scene ?R0 0
      = (trace init_scene ?R0 0, trace_rays init_scene ?R0 0, trace_shades init_scene ?R0 0)"
    and b: "trace_shades init_scene ?R0 0 = 3"
    by blast+
  from trace_recursion_bound [of init_scene ?R0 2] k
  have c: "trace_log init_scene ?R0 2
      = (trace init_scene ?R0 2, trace_rays init_scene ?R0 2, trace_shades init_scene ?R0 2)"
    and d: "trace_rays init_scene ?R0 2 = [(?R0, 2)]"
    by blast+
  from hyp k show ?thesis
    unfolding a b c d s2 chain_rays by simp
qed


subsection \<open>The tracer: order of the primitive lists\<close>

text \<open>Both loops together are one pass of \<open>pick\<close> over the candidates.\<close>

lemma sphere_step_pick: "sphere_step ray = (\<lambda>s. fold pick (sphere_cands ray s))"
  by (intro ext) (simp add: sphere_step_def sphere_cands_def pick_def split: isect.splits)

lemma plane_step_pick: "plane_step ray = (\<lambda>pl. fold pick (plane_cands ray pl))"
  by (intro ext) (simp add: plane_step_def plane_cands_def pick_def split: isect.splits)

lemma fold_steps_concat: "fold (\<lambda>x. fold f (g x)) xs = fold f (concat (map g xs))"
  by (induction xs) (simp_all add: fun_eq_iff)

lemma nearest_hit_pick: "nearest_hit sc ray = fold pick (candidates sc ray) init_hit"
  by (simp add: nearest_hit_def candidates_def sphere_step_pick plane_step_pick fold_steps_concat)

lemma fold_pick_mem: "fold pick cs h = h \<or> fold pick cs h \<in> set cs"
proof (induction cs arbitrary: h)
  case Nil
  show ?case by simp
next
  case (Cons c cs)
  from Cons.IH [of "pick c h"] show ?case
    by (auto simp add: pick_def split: if_splits)
qed

lemma fold_pick_le_init: "tMin (fold pick cs h) \<le> tMin h"
proof (induction cs arbitrary: h)
  case Nil
  show ?case by simp
next
  case (Cons c cs)
  have "tMin (fold pick cs (pick c h)) \<le> tMin (pick c h)" by (rule Cons.IH)
  also have "tMin (pick c h) \<le> tMin h" by (simp add: pick_def)
  finally show ?case by simp
qed

lemma fold_pick_le: "c \<in> set cs \<Longrightarrow> tMin (fold pick cs h) \<le> tMin c"
proof (induction cs arbitrary: h)
  case Nil
  then show ?case by simp
next
  case (Cons a cs)
  show ?case
  proof (cases "c = a")
    case True
    have "tMin (fold pick cs (pick a h)) \<le> tMin (pick a h)" by (rule fold_pick_le_init)
    also have "tMin (pick a h) \<le> tMin a" by (simp add: pick_def)
    finally show ?thesis using True by simp
  next
    case False
    with Cons.prems have "c \<in> set cs" by simp
    from Cons.IH [OF this, of "pick a h"] show ?thesis by simp
  qed
qed

lemma fold_pick_less: "fold pick cs h \<noteq> h \<Longrightarrow> tMin (fold pick cs h) < tMin h"
proof (induction cs arbitrary: h)
  case Nil
  then show ?case by simp
next
  case (Cons c cs)
  show ?case
  proof (cases "fold pick cs (pick c h) = pick c h")
    case True
    with Cons.prems have "pick c h \<noteq> h" by simp
    then have "pick c h = c \<and> tMin c < tMin h"
      by (simp add: pick_def split: if_splits)
    with True show ?thesis by simp
  next
    case False
    from Cons.IH [OF False] have "tMin (fold pick cs (pick c h)) < tMin (pick c h)" .
    also have "tMin (pick c h) \<le> tMin h" by (simp add: pick_def)
    finally show ?thesis by simp
  qed
qed

lemma candidates_hit: "c \<in> set (candidates sc ray) \<Longrightarrow> hit c"
  by (auto simp add: candidates_def sphere_cands_def plane_cands_def split: isect.splits)

lemma set_candidates:
  "set (candidates sc ray) =
     (\<Union>s \<in> set (g_spheres sc). set (sphere_cands ray s)) \<union>
     (\<Union>pl \<in> set (g_planes sc). set (plane_cands ray pl))"
  by (simp add: candidates_def)

lemma nearest_hit_perm:
  assumes sets: "set (candidates sc' ray) = set (candidates sc ray)"
    and tf: "tie_free sc ray"
  shows "nearest_hit sc' ray = nearest_hit sc ray"
proof -
  let ?cs = "candidates sc ray" and ?cs' = "candidates sc' ray"
  let ?r = "fold pick ?cs init_hit" and ?r' = "fold pick ?cs' init_hit"
  have nohit: "\<not> hit init_hit" by (simp add: init_hit_def)
  have min: "\<forall>c \<in> set ?cs. tMin ?r \<le> tMin c" and min': "\<forall>c \<in> set ?cs. tMin ?r' \<le> tMin c"
    using fold_pick_le [of _ ?cs init_hit] fold_pick_le [of _ ?cs' init_hit] sets by auto
  have "?r' = ?r"
  proof (cases "?r = init_hit")
    case True
    show ?thesis
    proof (rule ccontr)
      assume ne: "?r' \<noteq> ?r"
      with True have "?r' \<noteq> init_hit" by simp
      then have "tMin ?r' < tMin init_hit" and "?r' \<in> set ?cs"
        using fold_pick_less [of ?cs' init_hit] fold_pick_mem [of ?cs' init_hit] sets by auto
      with min True show False by force
    qed
  next
    case False
    then have mem: "?r \<in> set ?cs" and less: "tMin ?r < tMin init_hit"
      using fold_pick_mem [of ?cs init_hit] fold_pick_less [of ?cs init_hit] by auto
    have "?r' \<noteq> init_hit"
    proof
      assume "?r' = init_hit"
      with min' mem less show False by force
    qed
    then have mem': "?r' \<in> set ?cs"
      using fold_pick_mem [of ?cs' init_hit] sets by auto
    have "tMin ?r' = tMin ?r"
      using min min' mem mem' by (simp add: order_antisym)
    with tf mem mem' min show ?thesis
      unfolding tie_free_def by blast
  qed
  then show ?thesis by (simp add: nearest_hit_pick)
qed

lemma shade_cong:
  assumes "set (g_spheres sc') = set (g_spheres sc)" and "set (g_planes sc') = set (g_planes sc)"
    and "g_lightPos sc' = g_lightPos sc"
  shows "shade sc' p n c v = shade sc p n c v"
proof -
  have s: "shadow_spheres R ld (g_spheres sc') = shadow_spheres R ld (g_spheres sc)" for R ld
    unfolding shadow_spheres_iff assms(1) ..
  have pl: "shadow_planes R ld (g_planes sc') = shadow_planes R ld (g_planes sc)" for R ld
    unfolding shadow_planes_iff assms(2) ..
  show ?thesis
    by (simp only: shade_def s pl assms(3))
qed



text \<open>
  The loops keep the first of the candidates that are nearer than the initial \<open>tMin\<close> and
  not farther than any other candidate.
\<close>

lemma ex_nearest:
  "cs \<noteq> [] \<Longrightarrow> \<exists>c \<in> set cs. \<forall>c' \<in> set cs. tMin c \<le> tMin c'"
proof (induction cs)
  case Nil
  then show ?case by simp
next
  case (Cons a cs)
  show ?case
  proof (cases "cs = []")
    case True
    then show ?thesis by simp
  next
    case False
    from Cons.IH [OF this] obtain c where c: "c \<in> set cs" "\<forall>c' \<in> set cs. tMin c \<le> tMin c'"
      by blast
    show ?thesis
    proof (cases "tMin a \<le> tMin c")
      case True
      with c have "\<forall>c' \<in> set (a # cs). tMin a \<le> tMin c'" by force
      then show ?thesis by (intro bexI [of _ a]) simp_all
    next
      case False
      with c have "\<forall>c' \<in> set (a # cs). tMin c \<le> tMin c'" by force
      with c(1) show ?thesis by (intro bexI [of _ c]) simp_all
    qed
  qed
qed

lemma fold_pick_first:
  "fold pick cs h =
     (case filter (\<lambda>c. tMin c < tMin h \<and> (\<forall>c' \<in> set cs. tMin c \<le> tMin c')) cs of
        [] \<Rightarrow> h
      | c # _ \<Rightarrow> c)"
proof (induction cs arbitrary: h)
  case Nil
  show ?case by simp
next
  case (Cons a cs)
  show ?case
  proof (cases "tMin a < tMin h")
    case less: True
    then have step: "pick a h = a"
      by (simp add: pick_def)
    show ?thesis
    proof (cases "\<forall>c' \<in> set cs. tMin a \<le> tMin c'")
      case True
      then have "filter (\<lambda>c. tMin c < tMin a \<and> (\<forall>c' \<in> set cs. tMin c \<le> tMin c')) cs = []"
        by (auto simp add: filter_empty_conv)
      then have "fold pick cs a = a"
        by (simp add: Cons.IH)
      then show ?thesis
        using less True by (simp add: step)
    next
      case False
      then obtain c0 where c0: "c0 \<in> set cs" "tMin c0 < tMin a" by force
      then have "cs \<noteq> []" by auto
      from ex_nearest [OF this] obtain cm
        where cm: "cm \<in> set cs" "\<forall>c' \<in> set cs. tMin cm \<le> tMin c'" by blast
      with c0 have "tMin cm < tMin a" by force
      with cm have ne: "filter (\<lambda>c. tMin c < tMin a \<and> (\<forall>c' \<in> set cs. tMin c \<le> tMin c')) cs \<noteq> []"
        by (auto simp add: filter_empty_conv)
      have "filter (\<lambda>c. tMin c < tMin h \<and> (\<forall>c' \<in> set (a # cs). tMin c \<le> tMin c')) cs
          = filter (\<lambda>c. tMin c < tMin a \<and> (\<forall>c' \<in> set cs. tMin c \<le> tMin c')) cs"
        using c0 less by (intro filter_cong refl) force
      then show ?thesis
        using False ne by (auto simp add: step Cons.IH split: list.splits)
    qed
  next
    case False
    then have step: "pick a h = h"
      by (simp add: pick_def)
    have "filter (\<lambda>c. tMin c < tMin h \<and> (\<forall>c' \<in> set (a # cs). tMin c \<le> tMin c')) cs
        = filter (\<lambda>c. tMin c < tMin h \<and> (\<forall>c' \<in> set cs. tMin c \<le> tMin c')) cs"
      using False by (intro filter_cong refl) force
    then show ?thesis
      using False by (simp add: step Cons.IH)
  qed
qed

lemma nearest_hit_first:
  "nearest_hit sc ray = (case nearest_cands sc ray of [] \<Rightarrow> init_hit | c # _ \<Rightarrow> c)"
proof -
  have "tMin init_hit = 10 ^ 30" by (simp add: init_hit_def)
  then show ?thesis
    by (simp only: nearest_hit_pick fold_pick_first nearest_cands_def)
qed


lemma trace_rays_head: "(ray, depth) \<in> set (trace_rays sc ray depth)"
  by (subst trace_rays_unfold) simp

lemma trace_perm_sets:
  "set (g_spheres sc') = set (g_spheres sc) \<Longrightarrow> set (g_planes sc') = set (g_planes sc) \<Longrightarrow>
   g_lightPos sc' = g_lightPos sc \<Longrightarrow>
   \<forall>rk \<in> set (trace_rays sc ray depth). tie_free sc (fst rk) \<Longrightarrow>
   trace sc' ray depth = trace sc ray depth"
proof (induction sc ray depth rule: trace_chain_induct)
  case (step sc ray depth)
  let ?h = "nearest_hit sc ray"
  have cands: "set (candidates sc' ray) = set (candidates sc ray)"
    using step.prems(1,2) by (simp add: set_candidates)
  have head: "tie_free sc ray"
    using step.prems(4) trace_rays_head [of ray depth sc] by force
  have nh: "nearest_hit sc' ray = ?h"
    by (rule nearest_hit_perm [OF cands head])
  have sh: "shade sc' p n c v = shade sc p n c v" for p n c v
    by (rule shade_cong [OF step.prems(1,2,3)])
  show ?case
  proof (cases "hit ?h \<and> depth < kMaxDepth \<and> hitReflectivity ?h > 0")
    case True
    then have unf: "trace_rays sc ray depth =
        (ray, depth) # trace_rays sc (reflRay ray ?h) (depth + 1)"
      by (subst trace_rays_unfold) simp
    have rest: "\<forall>rk \<in> set (trace_rays sc (reflRay ray ?h) (depth + 1)). tie_free sc (fst rk)"
      using step.prems(4) unfolding unf by simp
    have ih: "trace sc' (reflRay ray ?h) (depth + 1) = trace sc (reflRay ray ?h) (depth + 1)"
      using step.IH [OF _ _ _ step.prems(1) step.prems(2) step.prems(3) rest] True by simp
    show ?thesis
      by (subst trace.simps [of sc' ray depth], subst trace.simps [of sc ray depth])
         (simp add: nh sh ih Let_def)
  next
    case False
    show ?thesis
      using False
      by (subst trace.simps [of sc' ray depth], subst trace.simps [of sc ray depth])
         (auto simp add: nh sh Let_def)
  qed
qed


text \<open>
  C7, as amended. The hit that the two loops of \<^verbatim>\<open>trace\<close> keep is the first, in traversal
  order (spheres in list order, then planes in list order), of the candidates at the
  smallest \<open>t\<close>, provided that \<open>t\<close> is below \<open>1e30\<close>; so a tie at the nearest distance goes to
  the primitive that comes first. And the colour \<^verbatim>\<open>trace\<close> returns is unchanged under any
  permutation of the sphere list and any permutation of the plane list, provided that for
  every ray of the call chain all candidates at the smallest \<open>t\<close> carry the same normal,
  colour and reflectivity (\<open>tie_free\<close>).
\<close>

theorem trace_permutation:
  "nearest_hit sc ray = (case nearest_cands sc ray of [] \<Rightarrow> init_hit | c # _ \<Rightarrow> c)
   \<and> (mset ss' = mset (g_spheres sc) \<and> mset ps' = mset (g_planes sc) \<and>
      (\<forall>rk \<in> set (trace_rays sc ray depth). tie_free sc (fst rk))
      \<longrightarrow> trace (sc\<lparr>g_spheres := ss', g_planes := ps'\<rparr>) ray depth = trace sc ray depth)"
proof -
  have "trace (sc\<lparr>g_spheres := ss', g_planes := ps'\<rparr>) ray depth = trace sc ray depth"
    if "mset ss' = mset (g_spheres sc)" and "mset ps' = mset (g_planes sc)"
      and tf: "\<forall>rk \<in> set (trace_rays sc ray depth). tie_free sc (fst rk)"
  proof -
    have "set ss' = set (g_spheres sc)" and "set ps' = set (g_planes sc)"
      using that(1,2) by (auto dest: mset_eq_setD)
    then show ?thesis
      using trace_perm_sets [of "sc\<lparr>g_spheres := ss', g_planes := ps'\<rparr>" sc ray depth] tf
      by simp
  qed
  with nearest_hit_first [of sc ray] show ?thesis by blast
qed

text \<open>
  The theorem in the scene of \<^verbatim>\<open>init_scene\<close> with both lists reversed, at a ray that enters
  the room through the left wall: it has two candidates, the right wall (earlier in the
  list, at \<open>t = 6\<close>) and the left wall (later, at \<open>t = 1\<close>), and the left wall is kept. Its
  two reflections have one candidate each.
\<close>

lemmas cand_defs = candidates_def sphere_cands_def plane_cands_def init_scene_def
  intersect_sphere_def intersect_plane_def Let_def dot_def vsub_def vadd_def smul_def

lemma wall_h0:
  "candidates init_scene (Ray (Vec3 (- 1) 2 2.5) (Vec3 1 0 0)) =
     [\<lparr> tMin = 6, hitNormal = Vec3 (- 1) 0 0, hitColor = Vec3 1 1 1,
        hitReflectivity = 0.05, hit = True \<rparr>,
      \<lparr> tMin = 1, hitNormal = Vec3 1 0 0, hitColor = Vec3 1 1 1,
        hitReflectivity = 0.05, hit = True \<rparr>]"
  by (simp add: cand_defs)

lemma wall_n0:
  "nearest_hit init_scene (Ray (Vec3 (- 1) 2 2.5) (Vec3 1 0 0)) =
     \<lparr> tMin = 1, hitNormal = Vec3 1 0 0, hitColor = Vec3 1 1 1,
       hitReflectivity = 0.05, hit = True \<rparr>"
  by (simp add: eval_defs)

lemma wall_r1:
  "reflRay (Ray (Vec3 (- 1) 2 2.5) (Vec3 1 0 0))
     (nearest_hit init_scene (Ray (Vec3 (- 1) 2 2.5) (Vec3 1 0 0)))
     = Ray (Vec3 0.001 2 2.5) (Vec3 (- 1) 0 0)"
  unfolding wall_n0 by (simp add: eval_defs)

lemma wall_n1:
  "nearest_hit init_scene (Ray (Vec3 0.001 2 2.5) (Vec3 (- 1) 0 0)) =
     \<lparr> tMin = 0.001, hitNormal = Vec3 1 0 0, hitColor = Vec3 1 1 1,
       hitReflectivity = 0.05, hit = True \<rparr>"
  by (simp add: eval_defs)

lemma wall_r2:
  "reflRay (Ray (Vec3 0.001 2 2.5) (Vec3 (- 1) 0 0))
     (nearest_hit init_scene (Ray (Vec3 0.001 2 2.5) (Vec3 (- 1) 0 0)))
     = Ray (Vec3 0.001 2 2.5) (Vec3 1 0 0)"
  unfolding wall_n1 by (simp add: eval_defs)

lemma wall_n2:
  "nearest_hit init_scene (Ray (Vec3 0.001 2 2.5) (Vec3 1 0 0)) =
     \<lparr> tMin = 4.999, hitNormal = Vec3 (- 1) 0 0, hitColor = Vec3 1 1 1,
       hitReflectivity = 0.05, hit = True \<rparr>"
  by (simp add: eval_defs)

lemma wall_rays:
  "trace_rays init_scene (Ray (Vec3 (- 1) 2 2.5) (Vec3 1 0 0)) 0 =
     [(Ray (Vec3 (- 1) 2 2.5) (Vec3 1 0 0), 0),
      (Ray (Vec3 0.001 2 2.5) (Vec3 (- 1) 0 0), 1),
      (Ray (Vec3 0.001 2 2.5) (Vec3 1 0 0), 2)]"
proof -
  have t2: "trace_rays init_scene (Ray (Vec3 0.001 2 2.5) (Vec3 1 0 0)) 2
      = [(Ray (Vec3 0.001 2 2.5) (Vec3 1 0 0), 2)]"
    by (subst trace_rays_unfold) (simp add: kMaxDepth_def)
  have t1: "trace_rays init_scene (Ray (Vec3 0.001 2 2.5) (Vec3 (- 1) 0 0)) 1
      = (Ray (Vec3 0.001 2 2.5) (Vec3 (- 1) 0 0), 1)
        # trace_rays init_scene (Ray (Vec3 0.001 2 2.5) (Vec3 1 0 0)) 2"
    by (subst trace_rays_unfold, unfold wall_r2, unfold wall_n1) (simp add: kMaxDepth_def)
  have t0: "trace_rays init_scene (Ray (Vec3 (- 1) 2 2.5) (Vec3 1 0 0)) 0
      = (Ray (Vec3 (- 1) 2 2.5) (Vec3 1 0 0), 0)
        # trace_rays init_scene (Ray (Vec3 0.001 2 2.5) (Vec3 (- 1) 0 0)) 1"
    by (subst trace_rays_unfold, unfold wall_r1, unfold wall_n0) (simp add: kMaxDepth_def)
  show ?thesis
    unfolding t0 t1 t2 ..
qed

lemma wall_tie_free:
  "tie_free init_scene (Ray (Vec3 (- 1) 2 2.5) (Vec3 1 0 0))"
  "tie_free init_scene (Ray (Vec3 0.001 2 2.5) (Vec3 (- 1) 0 0))"
  "tie_free init_scene (Ray (Vec3 0.001 2 2.5) (Vec3 1 0 0))"
  by (simp_all add: tie_free_def cand_defs)

theorem trace_permutation_witness:
  "mset (rev (g_spheres init_scene)) = mset (g_spheres init_scene)
   \<and> mset (rev (g_planes init_scene)) = mset (g_planes init_scene)
   \<and> list_all (\<lambda>rk. tie_free init_scene (fst rk))
        (trace_rays init_scene (Ray (Vec3 (- 1) 2 2.5) (Vec3 1 0 0)) 0)
   \<and> candidates init_scene (Ray (Vec3 (- 1) 2 2.5) (Vec3 1 0 0)) =
       [\<lparr> tMin = 6, hitNormal = Vec3 (- 1) 0 0, hitColor = Vec3 1 1 1,
          hitReflectivity = 0.05, hit = True \<rparr>,
        \<lparr> tMin = 1, hitNormal = Vec3 1 0 0, hitColor = Vec3 1 1 1,
          hitReflectivity = 0.05, hit = True \<rparr>]
   \<and> nearest_cands init_scene (Ray (Vec3 (- 1) 2 2.5) (Vec3 1 0 0)) =
       [\<lparr> tMin = 1, hitNormal = Vec3 1 0 0, hitColor = Vec3 1 1 1,
          hitReflectivity = 0.05, hit = True \<rparr>]
   \<and> nearest_hit init_scene (Ray (Vec3 (- 1) 2 2.5) (Vec3 1 0 0)) =
       \<lparr> tMin = 1, hitNormal = Vec3 1 0 0, hitColor = Vec3 1 1 1,
         hitReflectivity = 0.05, hit = True \<rparr>
   \<and> trace (init_scene\<lparr>g_spheres := rev (g_spheres init_scene),
                         g_planes := rev (g_planes init_scene)\<rparr>)
        (Ray (Vec3 (- 1) 2 2.5) (Vec3 1 0 0)) 0
      = trace init_scene (Ray (Vec3 (- 1) 2 2.5) (Vec3 1 0 0)) 0"
proof -
  let ?R0 = "Ray (Vec3 (- 1) 2 2.5) (Vec3 1 0 0)"
  have s: "mset (rev (g_spheres init_scene)) = mset (g_spheres init_scene)"
    and p: "mset (rev (g_planes init_scene)) = mset (g_planes init_scene)"
    by simp_all
  have tf: "\<forall>rk \<in> set (trace_rays init_scene ?R0 0). tie_free init_scene (fst rk)"
    unfolding wall_rays using wall_tie_free by simp
  have nc: "nearest_cands init_scene ?R0 =
       [\<lparr> tMin = 1, hitNormal = Vec3 1 0 0, hitColor = Vec3 1 1 1,
          hitReflectivity = 0.05, hit = True \<rparr>]"
    unfolding nearest_cands_def wall_h0 by simp
  note th = trace_permutation [of init_scene ?R0 "rev (g_spheres init_scene)"
      "rev (g_planes init_scene)" 0]
  from th have nh: "nearest_hit init_scene ?R0 =
       \<lparr> tMin = 1, hitNormal = Vec3 1 0 0, hitColor = Vec3 1 1 1,
         hitReflectivity = 0.05, hit = True \<rparr>"
    unfolding nc by simp
  from th s p tf have "trace (init_scene\<lparr>g_spheres := rev (g_spheres init_scene),
                         g_planes := rev (g_planes init_scene)\<rparr>) ?R0 0
      = trace init_scene ?R0 0"
    by blast
  with s p tf wall_h0 nc nh show ?thesis
    unfolding list_all_iff by blast
qed


text \<open>
  C7 as stated fails when two primitives tie at the nearest distance. Two spheres with the
  same centre and radius, one red and one blue, are hit at the same \<open>t = 2\<close>; the loop keeps
  the first of the list (the test is \<^verbatim>\<open>t < tMin\<close>, strict), and the colour of the pixel is
  that of the first sphere.
\<close>

lemma twin_hit:
  "nearest_hit \<lparr> g_spheres = [Sphere (Vec3 0 0 0) 1 c1, Sphere (Vec3 0 0 0) 1 c2],
           g_planes = [], g_lightPos = Vec3 0 0 2, g_camPos = Vec3 0 0 3, g_camLook = Vec3 0 0 0 \<rparr>
     (Ray (Vec3 0 0 3) (Vec3 0 0 (- 1))) =
   \<lparr> tMin = 2, hitNormal = Vec3 0 0 1, hitColor = c1, hitReflectivity = 0, hit = True \<rparr>"
  by (simp add: eval_defs sqrt_4)

lemma twin_shadow_ray:
  "intersect_sphere (Ray (Vec3 0 0 (1001 / 1000)) (Vec3 0 0 1)) (Sphere (Vec3 0 0 0) 1 c) = Miss"
  by (simp add: intersect_sphere_def Let_def dot_def vsub_def sqrt_4)

lemma twin_shade:
  "shade \<lparr> g_spheres = [Sphere (Vec3 0 0 0) 1 c1, Sphere (Vec3 0 0 0) 1 c2],
           g_planes = [], g_lightPos = Vec3 0 0 2, g_camPos = Vec3 0 0 3, g_camLook = Vec3 0 0 0 \<rparr>
     (Vec3 0 0 1) (Vec3 0 0 1) c (Vec3 0 0 1) = clamp01 (vadd c (Vec3 (3 / 10) (3 / 10) (3 / 10)))"
proof -
  have L: "normalize_v (vsub (Vec3 0 0 2) (Vec3 0 0 1)) = Vec3 0 0 1"
    by (simp add: normalize_v_def vsub_def dot_def smul_def)
  have ld: "length_v (vsub (Vec3 0 0 2) (Vec3 0 0 1)) = 1"
    by (simp add: length_v_def vsub_def dot_def)
  have o: "vadd (Vec3 0 0 1) (smul (Vec3 0 0 1) (1 / 10 ^ 3)) = Vec3 0 0 (1001 / 1000)"
    by (simp add: vadd_def smul_def)
  have H: "normalize_v (vadd (Vec3 0 0 1) (Vec3 0 0 1)) = Vec3 0 0 1"
    by (simp add: normalize_v_def vadd_def dot_def smul_def sqrt_4)
  have d: "dot (Vec3 0 0 1) (Vec3 0 0 1) = 1"
    by (simp add: dot_def)
  have c: "smul c (0.2 + 1 * 0.8) = c"
    by (cases c) (simp add: smul_def)
  show ?thesis
    unfolding shade_def Let_def scene.simps L ld o H d shadow_spheres.simps shadow_planes.simps
      twin_shadow_ray
    by (simp add: c smul_def)
qed

lemma twin_trace:
  "trace \<lparr> g_spheres = [Sphere (Vec3 0 0 0) 1 c1, Sphere (Vec3 0 0 0) 1 c2],
           g_planes = [], g_lightPos = Vec3 0 0 2, g_camPos = Vec3 0 0 3, g_camLook = Vec3 0 0 0 \<rparr>
     (Ray (Vec3 0 0 3) (Vec3 0 0 (- 1))) 0
   = clamp01 (clamp01 (vadd c1 (Vec3 (3 / 10) (3 / 10) (3 / 10))))"
proof -
  have pt: "vadd (Vec3 0 0 3) (smul (Vec3 0 0 (- 1)) 2) = Vec3 0 0 1"
    and vd: "normalize_v (smul (Vec3 0 0 (- 1)) (- 1)) = Vec3 0 0 1"
    by (simp_all add: vadd_def smul_def normalize_v_def dot_def)
  show ?thesis
    by (subst trace.simps, unfold twin_hit Let_def) (simp add: pt vd twin_shade)
qed

theorem trace_permutation_counterexample:
  "mset [Sphere (Vec3 0 0 0) 1 (Vec3 0.1 0.1 1), Sphere (Vec3 0 0 0) 1 (Vec3 1 0.1 0.1)]
     = mset [Sphere (Vec3 0 0 0) 1 (Vec3 1 0.1 0.1), Sphere (Vec3 0 0 0) 1 (Vec3 0.1 0.1 1)]
   \<and>
   trace \<lparr> g_spheres = [Sphere (Vec3 0 0 0) 1 (Vec3 0.1 0.1 1), Sphere (Vec3 0 0 0) 1 (Vec3 1 0.1 0.1)],
           g_planes = [], g_lightPos = Vec3 0 0 2, g_camPos = Vec3 0 0 3, g_camLook = Vec3 0 0 0 \<rparr>
     (Ray (Vec3 0 0 3) (Vec3 0 0 (- 1))) 0
   \<noteq>
   trace \<lparr> g_spheres = [Sphere (Vec3 0 0 0) 1 (Vec3 1 0.1 0.1), Sphere (Vec3 0 0 0) 1 (Vec3 0.1 0.1 1)],
           g_planes = [], g_lightPos = Vec3 0 0 2, g_camPos = Vec3 0 0 3, g_camLook = Vec3 0 0 0 \<rparr>
     (Ray (Vec3 0 0 3) (Vec3 0 0 (- 1))) 0"
  unfolding twin_trace by (simp add: clamp01_def vadd_def)

subsection \<open>The frame renderer\<close>

text \<open>
  The loops of \<^verbatim>\<open>render_scene\<close> over a buffer of \<open>W * H * 3\<close> bytes, when \<open>W * H * 3\<close> is at
  most \<^verbatim>\<open>INT_MAX\<close>: no index computation leaves the range of \<^verbatim>\<open>int\<close>, no store leaves the
  buffer, the stores of row \<open>Y\<close> from column \<open>X\<close> on go to the offsets
  \<open>(Y * W + X) * 3 ..< (Y * W + W) * 3\<close> in increasing order, and the bytes outside that
  window keep their value.
\<close>

lemma row_in_buffer:
  fixes W H X Y :: nat
  assumes "Y < H" and "X < W"
  shows "(Y * W + X) * 3 + 2 < W * H * 3"
proof -
  have "Y * W + X < Y * W + W" using assms(2) by simp
  also have "\<dots> = Suc Y * W" by simp
  also have "\<dots> \<le> H * W" using assms(1) by (intro mult_le_mono1) simp
  finally have "Y * W + X < W * H" by (simp add: mult.commute)
  then show ?thesis by simp
qed

lemma upt_three:
  fixes a b :: nat
  assumes "a + 3 \<le> b"
  shows "[a..<b] = a # Suc a # Suc (Suc a) # [Suc (Suc (Suc a))..<b]"
  using assms by (simp add: upt_conv_Cons)

lemma window_iff:
  fixes i p q :: nat
  assumes "p * 3 + 3 \<le> q" and "\<not> (p * 3 + 3 \<le> i \<and> i < q)"
  shows "i div 3 = p \<longleftrightarrow> p * 3 \<le> i \<and> i < q"
  using assms by presburger

lemma pixel_index_ok:
  fixes W H X Y :: nat
  assumes "Y < H" and "X < W" and "int (W * H * 3) \<le> INT_MAX"
  shows "pixel_index (int W) (int X) (int Y) = Some (int ((Y * W + X) * 3))"
proof -
  have "(Y * W + X) * 3 + 2 < W * H * 3"
    by (rule row_in_buffer [OF assms(1,2)])
  then have top: "int ((Y * W + X) * 3 + 2) \<le> INT_MAX"
    using assms(3) by linarith
  have eq: "int Y * int W = int (Y * W)" "int Y * int W + int X = int (Y * W + X)"
    "(int Y * int W + int X) * 3 = int ((Y * W + X) * 3)"
    by simp_all
  have le: "Y * W \<le> (Y * W + X) * 3 + 2" "Y * W + X \<le> (Y * W + X) * 3 + 2"
    "(Y * W + X) * 3 \<le> (Y * W + X) * 3 + 2" "(Y * W + X) * 3 + 1 \<le> (Y * W + X) * 3 + 2"
    by simp_all
  have r: "int_range (int n)" if "n \<le> (Y * W + X) * 3 + 2" for n
  proof -
    from that have "int n \<le> int ((Y * W + X) * 3 + 2)"
      by (simp only: of_nat_le_iff)
    from this top have "int n \<le> INT_MAX" by (rule order_trans)
    moreover have "- (2 ^ 31) \<le> int n"
      by (rule order_trans [of _ 0]) simp_all
    ultimately show ?thesis by (simp add: int_range_def)
  qed
  have "int_range (int (Y * W))" "int_range (int (Y * W + X))" "int_range (int ((Y * W + X) * 3))"
    "int_range (int ((Y * W + X) * 3) + 1)" "int_range (int ((Y * W + X) * 3) + 2)"
    using r [OF le(1)] r [OF le(2)] r [OF le(3)] r [OF le(4)] r [of "(Y * W + X) * 3 + 2"]
    by (simp_all add: add.commute)
  then show ?thesis
    unfolding pixel_index_def Let_def eq by simp
qed

lemma store_pixel_ok:
  assumes "p + 2 < length buf"
  shows "store_pixel (buf, st) (int p) col =
     Some (buf[p := quantize (vx col), p + 1 := quantize (vy col), p + 2 := quantize (vz col)],
           st @ [p, p + 1, p + 2])"
  using assms by (simp add: store_pixel_def)

lemma triple_nth:
  assumes "p * 3 + 2 < length buf" and "i < length buf"
  shows "buf[p * 3 := quantize (vx col), p * 3 + 1 := quantize (vy col),
             p * 3 + 2 := quantize (vz col)] ! i
         = (if i div 3 = p then quantize (chan (i mod 3) col) else buf ! i)"
proof -
  have "i div 3 = p \<longleftrightarrow> i = p * 3 \<or> i = p * 3 + 1 \<or> i = p * 3 + 2"
    by auto
  moreover have "(p * 3) mod 3 = 0" "(p * 3 + 1) mod 3 = 1" "(p * 3 + 2) mod 3 = 2"
    by presburger+
  ultimately show ?thesis
    using assms by (auto simp add: nth_list_update chan_def)
qed

lemma render_cols_spec:
  fixes W H X Y :: nat
  assumes "Y < H" and "X \<le> W" and "int (W * H * 3) \<le> INT_MAX" and "length buf = W * H * 3"
  shows "\<exists>buf'. render_cols sc cam (int W) (int H) (int Y) (int X) (buf, st)
             = Some (buf', st @ [(Y * W + X) * 3..<(Y * W + W) * 3]) \<and>
           length buf' = length buf \<and>
           (\<forall>i < length buf. buf' ! i =
              (if (Y * W + X) * 3 \<le> i \<and> i < (Y * W + W) * 3
               then byte_at sc cam (int W) (int H) i else buf ! i))"
  using assms
proof (induction "W - X" arbitrary: X buf st)
  case 0
  then have "X = W" by simp
  then show ?case
    by (subst render_cols.simps) auto
next
  case (Suc n)
  then have xw: "X < W" by simp
  let ?p = "Y * W + X"
  have inb: "?p * 3 + 2 < length buf"
    using row_in_buffer [OF Suc.prems(1) xw] Suc.prems(4) by simp
  let ?col = "pixel_color sc cam (int W) (int H) (int X) (int Y)"
  let ?b1 = "buf[?p * 3 := quantize (vx ?col), ?p * 3 + 1 := quantize (vy ?col),
                 ?p * 3 + 2 := quantize (vz ?col)]"
  have idx: "pixel_index (int W) (int X) (int Y) = Some (int (?p * 3))"
    by (rule pixel_index_ok [OF Suc.prems(1) xw Suc.prems(3)])
  have st1: "store_pixel (buf, st) (int (?p * 3)) ?col
      = Some (?b1, st @ [?p * 3, ?p * 3 + 1, ?p * 3 + 2])"
    by (rule store_pixel_ok [OF inb])
  have xw': "int X < int W" using xw by simp
  have sx: "int X + 1 = int (Suc X)" by simp
  have step: "render_cols sc cam (int W) (int H) (int Y) (int X) (buf, st)
      = render_cols sc cam (int W) (int H) (int Y) (int (Suc X))
          (?b1, st @ [?p * 3, ?p * 3 + 1, ?p * 3 + 2])"
    by (subst render_cols.simps) (simp only: xw' if_True idx option.case st1 sx)
  have "n = W - Suc X" "Suc X \<le> W" "length ?b1 = W * H * 3"
    using Suc.hyps(2) xw Suc.prems(4) by simp_all
  from Suc.hyps(1) [OF this(1) Suc.prems(1) this(2) Suc.prems(3) this(3),
      of "st @ [?p * 3, ?p * 3 + 1, ?p * 3 + 2]"]
  obtain b2 where
    b2: "render_cols sc cam (int W) (int H) (int Y) (int (Suc X))
            (?b1, st @ [?p * 3, ?p * 3 + 1, ?p * 3 + 2])
          = Some (b2, (st @ [?p * 3, ?p * 3 + 1, ?p * 3 + 2])
                      @ [(Y * W + Suc X) * 3..<(Y * W + W) * 3])"
    and len2: "length b2 = length ?b1"
    and nth2: "\<forall>i < length ?b1. b2 ! i =
        (if (Y * W + Suc X) * 3 \<le> i \<and> i < (Y * W + W) * 3
         then byte_at sc cam (int W) (int H) i else ?b1 ! i)"
    by blast
  have log: "[?p * 3, ?p * 3 + 1, ?p * 3 + 2] @ [(Y * W + Suc X) * 3..<(Y * W + W) * 3]
      = [?p * 3..<(Y * W + W) * 3]"
  proof -
    have le: "?p * 3 + 3 \<le> (Y * W + W) * 3" using xw by simp
    have e: "(Y * W + Suc X) * 3 = Suc (Suc (Suc (?p * 3)))" by simp
    show ?thesis
      unfolding e upt_three [OF le] by simp
  qed
  have px: "?p mod W = X" "?p div W = Y"
    using xw by simp_all
  have "b2 ! i = (if ?p * 3 \<le> i \<and> i < (Y * W + W) * 3
                  then byte_at sc cam (int W) (int H) i else buf ! i)"
    if i: "i < length buf" for i
  proof (cases "(Y * W + Suc X) * 3 \<le> i \<and> i < (Y * W + W) * 3")
    case True
    have i1: "i < length ?b1" using i by simp
    have "b2 ! i = byte_at sc cam (int W) (int H) i"
      unfolding nth2 [rule_format, OF i1] by (rule if_P [OF True])
    moreover have "?p * 3 \<le> i \<and> i < (Y * W + W) * 3"
      using True by simp
    ultimately show ?thesis by (simp only: if_True simp_thms)
  next
    case False
    have i1: "i < length ?b1" using i by simp
    have "b2 ! i = ?b1 ! i"
      unfolding nth2 [rule_format, OF i1] by (rule if_not_P [OF False])
    also have "\<dots> = (if i div 3 = ?p then quantize (chan (i mod 3) ?col) else buf ! i)"
      by (rule triple_nth [OF inb i])
    finally have b: "b2 ! i = (if i div 3 = ?p then quantize (chan (i mod 3) ?col) else buf ! i)" .
    have le: "?p * 3 + 3 \<le> (Y * W + W) * 3" using xw by simp
    have e: "(Y * W + Suc X) * 3 = ?p * 3 + 3" by simp
    have iff: "i div 3 = ?p \<longleftrightarrow> ?p * 3 \<le> i \<and> i < (Y * W + W) * 3"
      by (rule window_iff [OF le False [unfolded e]])
    show ?thesis
      unfolding b iff [symmetric] using px by (auto simp add: byte_at_def)
  qed
  then show ?case
    unfolding step b2 using len2 log by simp
qed

lemma upt_split:
  fixes a b c :: nat
  assumes "a \<le> b" and "b \<le> c"
  shows "[a..<b] @ [b..<c] = [a..<c]"
  using upt_add_eq_append [OF assms(1), of "c - b"] assms(2) by simp

lemma render_rows_spec:
  fixes W H Y :: nat
  assumes "Y \<le> H" and "int (W * H * 3) \<le> INT_MAX" and "length buf = W * H * 3"
  shows "\<exists>buf'. render_rows sc cam (int W) (int H) (int Y) (buf, st)
             = Some (buf', st @ [Y * W * 3..<H * W * 3]) \<and>
           length buf' = length buf \<and>
           (\<forall>i < length buf. buf' ! i =
              (if Y * W * 3 \<le> i then byte_at sc cam (int W) (int H) i else buf ! i))"
  using assms
proof (induction "H - Y" arbitrary: Y buf st)
  case 0
  then have "Y = H" by simp
  then show ?case
    using "0.prems"(3) by (subst render_rows.simps) (auto simp add: mult.commute)
next
  case (Suc n)
  then have yh: "Y < H" by simp
  from render_cols_spec [OF yh _ Suc.prems(2,3), of 0 sc cam st]
  obtain b1 where
    b1: "render_cols sc cam (int W) (int H) (int Y) 0 (buf, st)
          = Some (b1, st @ [Y * W * 3..<(Y * W + W) * 3])"
    and len1: "length b1 = length buf"
    and nth1: "\<forall>i < length buf. b1 ! i =
        (if Y * W * 3 \<le> i \<and> i < (Y * W + W) * 3
         then byte_at sc cam (int W) (int H) i else buf ! i)"
    by auto
  have yh': "int Y < int H" using yh by simp
  have sy: "int Y + 1 = int (Suc Y)" by simp
  have step: "render_rows sc cam (int W) (int H) (int Y) (buf, st)
      = render_rows sc cam (int W) (int H) (int (Suc Y)) (b1, st @ [Y * W * 3..<(Y * W + W) * 3])"
    by (subst render_rows.simps) (simp only: yh' if_True b1 option.case sy)
  have "n = H - Suc Y" "Suc Y \<le> H" "length b1 = W * H * 3"
    using Suc.hyps(2) yh len1 Suc.prems(3) by simp_all
  from Suc.hyps(1) [OF this(1,2) Suc.prems(2) this(3), of "st @ [Y * W * 3..<(Y * W + W) * 3]"]
  obtain b2 where
    b2: "render_rows sc cam (int W) (int H) (int (Suc Y)) (b1, st @ [Y * W * 3..<(Y * W + W) * 3])
          = Some (b2, (st @ [Y * W * 3..<(Y * W + W) * 3]) @ [Suc Y * W * 3..<H * W * 3])"
    and len2: "length b2 = length b1"
    and nth2: "\<forall>i < length b1. b2 ! i =
        (if Suc Y * W * 3 \<le> i then byte_at sc cam (int W) (int H) i else b1 ! i)"
    by blast
  have e: "(Y * W + W) * 3 = Suc Y * W * 3" by simp
  have "Suc Y * W \<le> H * W" using yh by (intro mult_le_mono1) simp
  then have le: "Suc Y * W * 3 \<le> H * W * 3" by simp
  have log: "[Y * W * 3..<(Y * W + W) * 3] @ [Suc Y * W * 3..<H * W * 3] = [Y * W * 3..<H * W * 3]"
    unfolding e by (rule upt_split [OF _ le]) simp
  have "b2 ! i = (if Y * W * 3 \<le> i then byte_at sc cam (int W) (int H) i else buf ! i)"
    if i: "i < length buf" for i
  proof (cases "Suc Y * W * 3 \<le> i")
    case True
    have i1: "i < length b1" using i len1 by simp
    have "b2 ! i = byte_at sc cam (int W) (int H) i"
      unfolding nth2 [rule_format, OF i1] by (rule if_P [OF True])
    moreover have "Y * W * 3 \<le> i" using True by simp
    ultimately show ?thesis by (simp only: if_True)
  next
    case False
    have i1: "i < length b1" using i len1 by simp
    have "b2 ! i = b1 ! i"
      unfolding nth2 [rule_format, OF i1] by (rule if_not_P [OF False])
    also have "\<dots> = (if Y * W * 3 \<le> i \<and> i < (Y * W + W) * 3
         then byte_at sc cam (int W) (int H) i else buf ! i)"
      by (rule nth1 [rule_format, OF i])
    finally show ?thesis
      using False unfolding e by (simp only: not_le simp_thms)
  qed
  then show ?case
    unfolding step b2 using len1 len2 log by simp
qed

lemma quantize_uint:
  assumes "0 \<le> c" and "c \<le> 1"
  shows "uint (quantize c) = \<lfloor>c * 255\<rfloor>"
proof -
  have lo: "0 \<le> \<lfloor>c * 255\<rfloor>" using assms(1) by simp
  have "c * 255 \<le> 255" using assms(2) by simp
  then have "\<lfloor>c * 255\<rfloor> \<le> 255" by (simp add: floor_le_iff)
  then have hi: "\<lfloor>c * 255\<rfloor> < 2 ^ 8" by simp
  show ?thesis
    unfolding quantize_def using lo hi by (simp add: uint_word_of_int_eq take_bit_int_eq_self)
qed

lemma pixel_color_range:
  "0 \<le> chan k (pixel_color sc cam w h x y) \<and> chan k (pixel_color sc cam w h x y) \<le> 1"
  unfolding pixel_color_def Let_def chan_def using clamp01_range by simp

lemma render_scene_bytes:
  fixes W H :: nat
  assumes bound: "int (W * H * 3) \<le> INT_MAX" and len: "length buf = W * H * 3"
  shows "\<exists>buf'. render_scene sc (int W) (int H) buf = Some (buf', [0..<W * H * 3]) \<and>
     length buf' = W * H * 3 \<and>
     (\<forall>Y < H. \<forall>X < W. \<forall>k < 3.
        uint (buf' ! ((Y * W + X) * 3 + k))
          = \<lfloor>chan k (pixel_color sc (make_camera sc (int W) (int H)) (int W) (int H) (int X) (int Y))
               * 255\<rfloor>)"
proof -
  let ?cam = "make_camera sc (int W) (int H)"
  from render_rows_spec [OF _ bound len, of 0 sc ?cam "[]"] obtain buf'
    where r: "render_rows sc ?cam (int W) (int H) 0 (buf, []) = Some (buf', [0..<H * W * 3])"
      and l: "length buf' = length buf"
      and n: "\<forall>i < length buf. buf' ! i = byte_at sc ?cam (int W) (int H) i"
    by auto
  have "uint (buf' ! ((Y * W + X) * 3 + k))
      = \<lfloor>chan k (pixel_color sc ?cam (int W) (int H) (int X) (int Y)) * 255\<rfloor>"
    if "Y < H" and "X < W" and "k < 3" for X Y k
  proof -
    let ?i = "(Y * W + X) * 3 + k"
    have inb: "?i < length buf"
      using row_in_buffer [OF that(1,2)] that(3) len by simp
    have d3: "?i div 3 = Y * W + X"
      using that(3) by simp
    have m3: "?i mod 3 = k"
      using that(3) by presburger
    have dw: "(Y * W + X) div W = Y" and mw: "(Y * W + X) mod W = X"
      using that(2) by simp_all
    have "buf' ! ?i = byte_at sc ?cam (int W) (int H) ?i"
      using n inb by blast
    also have "\<dots> = quantize (chan k (pixel_color sc ?cam (int W) (int H) (int X) (int Y)))"
      by (simp only: byte_at_def d3 m3 nat_int dw mw)
    finally show ?thesis
      using pixel_color_range [of k sc ?cam "int W" "int H" "int X" "int Y"]
      by (simp add: quantize_uint)
  qed
  then show ?thesis
    using r l len by (auto simp add: render_scene_def mult.commute)
qed

lemma buffer_size_bound:
  assumes "0 \<le> w" and "0 \<le> h" and "buffer_size w h = Some n"
  shows "w * h * 3 \<le> INT_MAX \<and> n = nat (w * h * 3)"
proof -
  have r: "int_range (w * h * 3)" and n: "n = nat ((w * h * 3) mod 2 ^ 64)"
    using assms(3) by (auto simp add: buffer_size_def split: if_splits)
  have nn: "0 \<le> w * h * 3" using assms(1,2) by simp
  have le: "w * h * 3 \<le> INT_MAX" using r by (simp add: int_range_def)
  then have "w * h * 3 < 2 ^ 64" by (simp add: INT_MAX_def)
  with nn have "(w * h * 3) mod 2 ^ 64 = w * h * 3" by simp
  with n le show ?thesis by simp
qed

lemma pixel_offset:
  assumes "0 \<le> x" and "0 \<le> y" and "0 \<le> w"
  shows "nat ((y * w + x) * 3 + int k) = (nat y * nat w + nat x) * 3 + k"
proof -
  have "int ((nat y * nat w + nat x) * 3 + k) = (y * w + x) * 3 + int k"
    using assms by simp
  then show ?thesis by (metis nat_int)
qed

text \<open>
  C4 (amended). Let \<open>w\<close> and \<open>h\<close> be non-negative, let \<^verbatim>\<open>g_width * g_height * 3\<close> be computed
  without overflow of \<^verbatim>\<open>int\<close>, and let the buffer have that many bytes, as \<^verbatim>\<open>init_scene\<close>
  and \<^verbatim>\<open>reshape_cb\<close> allocate it. Then \<^verbatim>\<open>render_scene\<close> returns, the buffer keeps its size
  \<open>w * h * 3\<close>, the stores of the run go to the offsets \<open>0, 1, \<dots>, w * h * 3 - 1\<close>, each
  exactly once, and for every pixel \<open>(x, y)\<close> the three bytes at offset \<open>(y * w + x) * 3\<close> are
  \<open>\<lfloor>c * 255\<rfloor>\<close> for the three channels of \<open>c = clamp01 (trace ray 0)\<close>, where the ray starts at
  the camera position with direction \<open>normalize (forward + u * right + v * up)\<close>,
  \<open>u = (2 * (x + 0.5) / w - 1) * aspect * tan (fov / 2)\<close> and
  \<open>v = (2 * (y + 0.5) / h - 1) * tan (fov / 2)\<close>; \<open>forward\<close>, \<open>right\<close> and \<open>up\<close> are the camera
  basis that the code builds from \<^verbatim>\<open>g_camPos\<close> and \<^verbatim>\<open>g_camLook\<close>, \<open>aspect = w / h\<close> and
  \<open>fov = 45 * 3.1415926 / 180\<close>. The bytes of a pixel are a function of the scene, \<open>w\<close>,
  \<open>h\<close>, \<open>x\<close> and \<open>y\<close> alone.
\<close>

theorem render_scene_spec:
  assumes w: "0 \<le> w" and h: "0 \<le> h" and size: "buffer_size w h = Some (length buf)"
  shows "\<exists>buf'. render_scene sc w h buf = Some (buf', [0..<nat (w * h * 3)]) \<and>
     length buf' = nat (w * h * 3) \<and>
     (\<forall>x y. 0 \<le> x \<and> x < w \<and> 0 \<le> y \<and> y < h \<longrightarrow>
        (let forward = normalize_v (vsub (g_camLook sc) (g_camPos sc));
             right0 = normalize_v (cross forward (Vec3 0 1 0));
             right = (if dot right0 right0 < 1 / 10 ^ 6
                      then normalize_v (cross forward (Vec3 0 0 1)) else right0);
             up = normalize_v (cross right forward);
             aspect = real_of_int w / real_of_int h;
             scale = tan (45 * 3.1415926 / 180 * 0.5);
             u = (2 * ((real_of_int x + 0.5) / real_of_int w) - 1) * aspect * scale;
             v = (2 * ((real_of_int y + 0.5) / real_of_int h) - 1) * scale;
             dir = normalize_v (vadd (vadd forward (lmul u right)) (lmul v up));
             c = clamp01 (trace sc (Ray (g_camPos sc) dir) 0)
         in uint (buf' ! nat ((y * w + x) * 3)) = \<lfloor>vx c * 255\<rfloor> \<and>
            uint (buf' ! nat ((y * w + x) * 3 + 1)) = \<lfloor>vy c * 255\<rfloor> \<and>
            uint (buf' ! nat ((y * w + x) * 3 + 2)) = \<lfloor>vz c * 255\<rfloor>))"
proof -
  from buffer_size_bound [OF w h size]
  have le: "w * h * 3 \<le> INT_MAX" and len: "length buf = nat (w * h * 3)" by simp_all
  have iw: "int (nat w) = w" and ih: "int (nat h) = h" using w h by simp_all
  have prod: "nat w * nat h * 3 = nat (w * h * 3)"
    using w h by (simp add: nat_mult_distrib)
  have b: "int (nat w * nat h * 3) \<le> INT_MAX" using le w h by simp
  have l: "length buf = nat w * nat h * 3" using len prod by simp
  from render_scene_bytes [OF b l, of sc] obtain buf'
    where r: "render_scene sc w h buf = Some (buf', [0..<nat (w * h * 3)])"
      and l': "length buf' = nat (w * h * 3)"
      and px: "\<forall>Y < nat h. \<forall>X < nat w. \<forall>k < 3.
        uint (buf' ! ((Y * nat w + X) * 3 + k))
          = \<lfloor>chan k (pixel_color sc (make_camera sc w h) w h (int X) (int Y)) * 255\<rfloor>"
    unfolding iw ih prod by blast
  have "uint (buf' ! nat ((y * w + x) * 3 + int k))
      = \<lfloor>chan k (pixel_color sc (make_camera sc w h) w h x y) * 255\<rfloor>"
    if "0 \<le> x" "x < w" "0 \<le> y" "y < h" "k < 3" for x y k
  proof -
    have "nat y < nat h" "nat x < nat w" using that by simp_all
    from px [rule_format, OF this that(5)] show ?thesis
      using that(1,3) by (simp only: pixel_offset [OF that(1,3) w] int_nat_eq if_True)
  qed
  from this [of _ _ 0] this [of _ _ 1] this [of _ _ 2]
  have "\<forall>x y. 0 \<le> x \<and> x < w \<and> 0 \<le> y \<and> y < h \<longrightarrow>
      uint (buf' ! nat ((y * w + x) * 3))
        = \<lfloor>vx (pixel_color sc (make_camera sc w h) w h x y) * 255\<rfloor> \<and>
      uint (buf' ! nat ((y * w + x) * 3 + 1))
        = \<lfloor>vy (pixel_color sc (make_camera sc w h) w h x y) * 255\<rfloor> \<and>
      uint (buf' ! nat ((y * w + x) * 3 + 2))
        = \<lfloor>vz (pixel_color sc (make_camera sc w h) w h x y) * 255\<rfloor>"
    by (simp add: chan_def)
  then show ?thesis
    using r l' by (simp add: pixel_color_def make_camera_def Let_def)
qed

text \<open>
  The theorem on a frame of 3 by 3 pixels. The camera at \<open>(0, 0, 3)\<close> looks at a unit sphere
  around the origin, lit from \<open>(0, 0, 2)\<close>: the basis is \<open>forward = (0, 0, -1)\<close>,
  \<open>right = (1, 0, 0)\<close>, \<open>up = (0, 1, 0)\<close>. The ray of the centre pixel \<open>(1, 1)\<close> has
  \<open>u = v = 0\<close> and hits the sphere at \<open>(0, 0, 1)\<close>, where the colour is \<open>(1, 0.4, 0.4)\<close>:
  the bytes at offsets 12, 13 and 14 are 255, 102 and 102. The ray of the corner pixel
  \<open>(0, 0)\<close> has \<open>u = v = - 2/3 * tan (fov / 2)\<close>.
\<close>

lemma sqrt_9: "sqrt 9 = (3::real)"
  by (rule real_sqrt_unique) simp_all

lemma twin_camera:
  "normalize_v (vsub (Vec3 0 0 0) (Vec3 0 0 3)) = Vec3 0 0 (- 1)"
  "normalize_v (cross (Vec3 0 0 (- 1)) (Vec3 0 1 0)) = Vec3 1 0 0"
  "\<not> dot (Vec3 1 0 0) (Vec3 1 0 0) < 1 / 10 ^ 6"
  "normalize_v (cross (Vec3 1 0 0) (Vec3 0 0 (- 1))) = Vec3 0 1 0"
  by (simp_all add: normalize_v_def vsub_def cross_def dot_def smul_def sqrt_9)

lemma twin_dir:
  "vadd (vadd (Vec3 0 0 (- 1)) (lmul u (Vec3 1 0 0))) (lmul v (Vec3 0 1 0)) = Vec3 u v (- 1)"
  by (simp add: vadd_def lmul_def)

lemma twin_centre: "normalize_v (Vec3 0 0 (- 1)) = Vec3 0 0 (- 1)"
  by (simp add: normalize_v_def dot_def smul_def)

theorem render_scene_spec_witness:
  "buffer_size 3 3 = Some (length (replicate 27 (0 :: 8 word))) \<and>
   (\<exists>buf'. render_scene
              \<lparr> g_spheres = [Sphere (Vec3 0 0 0) 1 (Vec3 1 0.1 0.1),
                              Sphere (Vec3 0 0 0) 1 (Vec3 0.1 0.1 1)],
                g_planes = [], g_lightPos = Vec3 0 0 2, g_camPos = Vec3 0 0 3,
                g_camLook = Vec3 0 0 0 \<rparr>
              3 3 (replicate 27 0) = Some (buf', [0..<27]) \<and>
      length buf' = 27 \<and>
      uint (buf' ! 12) = 255 \<and> uint (buf' ! 13) = 102 \<and> uint (buf' ! 14) = 102 \<and>
      uint (buf' ! 0) =
        \<lfloor>vx (clamp01 (trace
              \<lparr> g_spheres = [Sphere (Vec3 0 0 0) 1 (Vec3 1 0.1 0.1),
                              Sphere (Vec3 0 0 0) 1 (Vec3 0.1 0.1 1)],
                g_planes = [], g_lightPos = Vec3 0 0 2, g_camPos = Vec3 0 0 3,
                g_camLook = Vec3 0 0 0 \<rparr>
              (Ray (Vec3 0 0 3)
                 (normalize_v (Vec3 (- (2 / 3) * tan (45 * 3.1415926 / 180 * 0.5))
                                    (- (2 / 3) * tan (45 * 3.1415926 / 180 * 0.5)) (- 1))))
              0)) * 255\<rfloor>)"
proof -
  let ?sc = "\<lparr> g_spheres = [Sphere (Vec3 0 0 0) 1 (Vec3 1 0.1 0.1),
                              Sphere (Vec3 0 0 0) 1 (Vec3 0.1 0.1 1)],
                g_planes = [], g_lightPos = Vec3 0 0 2, g_camPos = Vec3 0 0 3,
                g_camLook = Vec3 0 0 0 \<rparr>"
  let ?buf = "replicate 27 (0 :: 8 word)"
  have w: "(0::int) \<le> 3" by simp
  have size: "buffer_size 3 3 = Some (length ?buf)"
    by (simp add: buffer_size_def int_range_def INT_MAX_def)
  from render_scene_spec [OF w w size, of ?sc] obtain buf'
    where r: "render_scene ?sc 3 3 ?buf = Some (buf', [0..<nat (3 * 3 * 3)])"
      and l: "length buf' = nat (3 * 3 * 3)"
      and px: "\<forall>x y. 0 \<le> x \<and> x < 3 \<and> 0 \<le> y \<and> y < 3 \<longrightarrow>
        (let forward = normalize_v (vsub (g_camLook ?sc) (g_camPos ?sc));
             right0 = normalize_v (cross forward (Vec3 0 1 0));
             right = (if dot right0 right0 < 1 / 10 ^ 6
                      then normalize_v (cross forward (Vec3 0 0 1)) else right0);
             up = normalize_v (cross right forward);
             aspect = real_of_int 3 / real_of_int 3;
             scale = tan (45 * 3.1415926 / 180 * 0.5);
             u = (2 * ((real_of_int x + 0.5) / real_of_int 3) - 1) * aspect * scale;
             v = (2 * ((real_of_int y + 0.5) / real_of_int 3) - 1) * scale;
             dir = normalize_v (vadd (vadd forward (lmul u right)) (lmul v up));
             c = clamp01 (trace ?sc (Ray (g_camPos ?sc) dir) 0)
         in uint (buf' ! nat ((y * 3 + x) * 3)) = \<lfloor>vx c * 255\<rfloor> \<and>
            uint (buf' ! nat ((y * 3 + x) * 3 + 1)) = \<lfloor>vy c * 255\<rfloor> \<and>
            uint (buf' ! nat ((y * 3 + x) * 3 + 2)) = \<lfloor>vz c * 255\<rfloor>)"
    by blast
  have px': "\<forall>x y. 0 \<le> x \<and> x < 3 \<and> 0 \<le> y \<and> y < 3 \<longrightarrow>
        (let scale = tan (45 * 3.1415926 / 180 * 0.5);
             u = (2 * ((real_of_int x + 0.5) / real_of_int 3) - 1) * (real_of_int 3 / real_of_int 3) * scale;
             v = (2 * ((real_of_int y + 0.5) / real_of_int 3) - 1) * scale;
             c = clamp01 (trace ?sc (Ray (Vec3 0 0 3) (normalize_v (Vec3 u v (- 1)))) 0)
         in uint (buf' ! nat ((y * 3 + x) * 3)) = \<lfloor>vx c * 255\<rfloor> \<and>
            uint (buf' ! nat ((y * 3 + x) * 3 + 1)) = \<lfloor>vy c * 255\<rfloor> \<and>
            uint (buf' ! nat ((y * 3 + x) * 3 + 2)) = \<lfloor>vz c * 255\<rfloor>)"
    using px by (simp only: Let_def scene.simps twin_camera if_False twin_dir)
  have col: "clamp01 (trace ?sc (Ray (Vec3 0 0 3) (Vec3 0 0 (- 1))) 0) = Vec3 1 (2 / 5) (2 / 5)"
    unfolding twin_trace by (simp add: clamp01_def vadd_def)
  from px' [rule_format, of 1 1]
  have centre: "uint (buf' ! 12) = 255 \<and> uint (buf' ! 13) = 102 \<and> uint (buf' ! 14) = 102"
    by (simp add: Let_def twin_centre col)
  from px' [rule_format, of 0 0]
  have corner: "uint (buf' ! 0) =
        \<lfloor>vx (clamp01 (trace ?sc
              (Ray (Vec3 0 0 3)
                 (normalize_v (Vec3 (- (2 / 3) * tan (45 * 3.1415926 / 180 * 0.5))
                                    (- (2 / 3) * tan (45 * 3.1415926 / 180 * 0.5)) (- 1))))
              0)) * 255\<rfloor>"
    by (simp add: Let_def)
  from size r l centre corner show ?thesis by simp
qed

text \<open>
  C4 as stated, for every width and height, fails: the index \<^verbatim>\<open>(y * g_width + x) * 3\<close> is an
  \<^verbatim>\<open>int\<close>. In a frame of 30000 by 30000 pixels the size \<^verbatim>\<open>g_width * g_height * 3\<close> and the
  index of the pixel \<open>(0, 29999)\<close>, \<open>29999 * 30000 * 3 = 2699910000\<close>, exceed
  \<^verbatim>\<open>INT_MAX = 2147483647\<close>: the run has undefined behaviour, whatever the buffer.
\<close>

lemma render_cols_overflow:
  assumes "x \<le> x'" and "x' < w" and "pixel_index w x' y = None"
  shows "render_cols sc cam w h y x fr = None"
  using assms
proof (induction sc cam w h y x fr rule: render_cols.induct)
  case (1 sc cam w h y x fr)
  have xw: "x < w" using "1.prems" by simp
  show ?case
  proof (cases "pixel_index w x y")
    case None
    then show ?thesis by (subst render_cols.simps) (simp add: xw)
  next
    case (Some idx)
    then have ne: "x \<noteq> x'" using "1.prems"(3) by auto
    show ?thesis
    proof (cases "store_pixel fr idx (pixel_color sc cam w h x y)")
      case None
      then show ?thesis by (subst render_cols.simps) (simp add: xw Some)
    next
      case (Some fr')
      have "x + 1 \<le> x'" using ne "1.prems"(1) by simp
      from "1.IH" [OF xw \<open>pixel_index w x y = Some idx\<close> Some this "1.prems"(2,3)]
      show ?thesis
        by (subst render_cols.simps) (simp add: xw \<open>pixel_index w x y = Some idx\<close> Some)
    qed
  qed
qed

lemma render_rows_overflow:
  assumes "y \<le> y'" and "y' < h" and "0 \<le> x'" and "x' < w" and "pixel_index w x' y' = None"
  shows "render_rows sc cam w h y fr = None"
  using assms
proof (induction sc cam w h y fr rule: render_rows.induct)
  case (1 sc cam w h y fr)
  have yh: "y < h" using "1.prems" by simp
  show ?case
  proof (cases "render_cols sc cam w h y 0 fr")
    case None
    then show ?thesis by (subst render_rows.simps) (simp add: yh)
  next
    case (Some fr')
    have "y \<noteq> y'"
      using render_cols_overflow [OF "1.prems"(3,4,5), of sc cam h fr] Some by auto
    then have "y + 1 \<le> y'" using "1.prems"(1) by simp
    from "1.IH" [OF yh Some this "1.prems"(2,3,4,5)]
    show ?thesis by (subst render_rows.simps) (simp add: yh Some)
  qed
qed

theorem render_scene_counterexample:
  "buffer_size 30000 30000 = None \<and>
   pixel_index 30000 0 29999 = None \<and>
   (\<forall>buf. render_scene init_scene 30000 30000 buf = None)"
proof -
  have p: "pixel_index 30000 0 29999 = None"
    by (simp add: pixel_index_def int_range_def INT_MAX_def)
  have b: "buffer_size 30000 30000 = None"
    by (simp add: buffer_size_def int_range_def INT_MAX_def)
  have "render_scene init_scene 30000 30000 buf = None" for buf
    unfolding render_scene_def
    by (rule render_rows_overflow [where y' = 29999 and x' = 0, OF _ _ _ _ p]) simp_all
  with p b show ?thesis by simp
qed

end
